theory Spec2Isabelle
  imports Complex_Main
begin

section \<open>Values\<close>

subsection \<open>Decimals\<close>

text \<open>
  Python's \<^verbatim>\<open>Decimal\<close> as a coefficient and a number of decimal places: the value is
  \<open>coeff / 10 ^ places\<close>. \<^verbatim>\<open>Decimal("0.90")\<close> is \<open>\<lparr>coeff = 90, places = 2\<rparr>\<close> and a
  value read from a \<^verbatim>\<open>Numeric(12, 2)\<close> column has two places. Every decimal of the
  escrow router comes from such a column or from one of the literals \<^verbatim>\<open>"0.90"\<close>,
  \<^verbatim>\<open>"0.10"\<close>, \<^verbatim>\<open>"0"\<close>, so no positive exponent occurs.

  Multiplication multiplies the coefficients and adds the places; addition aligns
  both operands to the larger number of places. Python rounds a result to the
  context's 28 significant digits; a \<^verbatim>\<open>Numeric(12, 2)\<close> coefficient is below
  \<open>10 ^ 12\<close>, so the products and sums of the router stay far below that bound and are
  exact.
\<close>

record decimal =
  coeff :: int
  places :: nat

definition Decimal :: "int \<Rightarrow> nat \<Rightarrow> decimal" where
  "Decimal c p = \<lparr>coeff = c, places = p\<rparr>"

definition dec_mul :: "decimal \<Rightarrow> decimal \<Rightarrow> decimal" where
  "dec_mul a b = \<lparr>coeff = coeff a * coeff b, places = places a + places b\<rparr>"

definition dec_add :: "decimal \<Rightarrow> decimal \<Rightarrow> decimal" where
  "dec_add a b =
     (let p = max (places a) (places b)
      in \<lparr>coeff = coeff a * 10 ^ (p - places a) + coeff b * 10 ^ (p - places b),
          places = p\<rparr>)"

definition dec_val :: "decimal \<Rightarrow> rat" where
  "dec_val d = of_int (coeff d) / 10 ^ places d"

text \<open>Truthiness of a \<^verbatim>\<open>Decimal\<close>: zero is falsy.\<close>

definition dec_truthy :: "decimal \<Rightarrow> bool" where
  "dec_truthy d \<longleftrightarrow> coeff d \<noteq> 0"

definition numeric_12_2 :: "decimal \<Rightarrow> bool" where
  "numeric_12_2 d \<longleftrightarrow> places d = 2 \<and> \<bar>coeff d\<bar> < 10 ^ 12"

text \<open>
  What a \<^verbatim>\<open>Numeric(12, 2)\<close> column of the storage engine makes of a decimal written to
  it: the value rounded to the cent, a tie away from zero. \<open>numeric_12_2\<close> holds of
  every value the column stores.
\<close>

definition round_half_away :: "rat \<Rightarrow> int" where
  "round_half_away x = (if 0 \<le> x then \<lfloor>x + 1 / 2\<rfloor> else - \<lfloor>- x + 1 / 2\<rfloor>)"

definition quantize_cents :: "decimal \<Rightarrow> decimal" where
  "quantize_cents d = \<lparr>coeff = round_half_away (dec_val d * 100), places = 2\<rparr>"

text \<open>The split percentages of \<^verbatim>\<open>routers/escrow.py\<close>.\<close>

definition PRODUCER_SHARE :: decimal where
  "PRODUCER_SHARE = Decimal 90 2"

definition DRIVER_SHARE :: decimal where
  "DRIVER_SHARE = Decimal 10 2"

subsection \<open>Binary floating point\<close>

text \<open>
  A Python \<^verbatim>\<open>float\<close> (IEEE 754 binary64) as mantissa and binary exponent: the value
  is \<open>mant * 2 ^ bexp\<close>. \<open>float_of_decimal\<close> is \<^verbatim>\<open>float(d)\<close> for a decimal \<open>d\<close>: the
  nearest binary64 number, ties to the even mantissa, normalised so that a non-zero
  mantissa has exactly 53 bits. The model covers the normal range
  (magnitudes from \<open>2 ^ -1022\<close> up to the largest finite double), which holds every
  amount of a \<^verbatim>\<open>Numeric(12, 2)\<close> column and its products with the shares.
\<close>

datatype pyfloat = Float64 (mant: int) (bexp: int)

fun bit_length :: "nat \<Rightarrow> nat" where
  "bit_length n = (if n = 0 then 0 else Suc (bit_length (n div 2)))"

declare bit_length.simps [simp del]

text \<open>\<open>round_half_even n d\<close> is the integer nearest to \<open>n / d\<close>, ties to even.\<close>

definition round_half_even :: "nat \<Rightarrow> nat \<Rightarrow> nat" where
  "round_half_even n d =
     (let q = n div d; r = n mod d
      in if 2 * r < d then q
         else if d < 2 * r then q + 1
         else if even q then q else q + 1)"

text \<open>\<open>scaled n d e\<close> is \<open>(n / d) / 2 ^ e\<close> as a numerator and a denominator.\<close>

definition scaled :: "nat \<Rightarrow> nat \<Rightarrow> int \<Rightarrow> nat \<times> nat" where
  "scaled n d e = (if e < 0 then (n * 2 ^ nat (- e), d) else (n, d * 2 ^ nat e))"

definition float_of_ratio :: "nat \<Rightarrow> nat \<Rightarrow> nat \<times> int" where
  "float_of_ratio n d =
     (let e0 = int (bit_length n) - int (bit_length d) - 53;
          (n0, d0) = scaled n d e0;
          e = (if n0 < 2 ^ 53 * d0 then e0 else e0 + 1);
          (n1, d1) = scaled n d e;
          m = round_half_even n1 d1
      in if m = 2 ^ 53 then (2 ^ 52, e + 1) else (m, e))"

definition float_of_decimal :: "decimal \<Rightarrow> pyfloat" where
  "float_of_decimal x =
     (if coeff x = 0 then Float64 0 0
      else (let (m, e) = float_of_ratio (nat \<bar>coeff x\<bar>) (10 ^ places x)
            in Float64 (sgn (coeff x) * int m) e))"

definition float_val :: "pyfloat \<Rightarrow> rat" where
  "float_val f =
     (if bexp f < 0 then of_int (mant f) / 2 ^ nat (- bexp f)
      else of_int (mant f) * 2 ^ nat (bexp f))"

subsection \<open>Identifiers, timestamps and their strings\<close>

text \<open>
  A UUID is its 128-bit number; \<open>str_uuid\<close> is Python's \<^verbatim>\<open>str(uuid)\<close>: 32 lower-case
  hexadecimal digits in groups of 8-4-4-4-12.
\<close>

type_synonym uuid = nat

fun digits_str :: "nat \<Rightarrow> nat \<Rightarrow> nat \<Rightarrow> string" where
  "digits_str b 0 n = []"
| "digits_str b (Suc k) n = digits_str b k (n div b) @ [''0123456789abcdef'' ! (n mod b)]"

definition str_uuid :: "uuid \<Rightarrow> string" where
  "str_uuid u =
     (let h = digits_str 16 32 u
      in take 8 h @ ''-'' @ take 4 (drop 8 h) @ ''-'' @ take 4 (drop 12 h) @ ''-''
         @ take 4 (drop 16 h) @ ''-'' @ drop 20 h)"

text \<open>\<^verbatim>\<open>str(n)\<close> for an integer.\<close>

fun dec_digits :: "nat \<Rightarrow> string" where
  "dec_digits n =
     (if n < 10 then [''0123456789'' ! n]
      else dec_digits (n div 10) @ [''0123456789'' ! (n mod 10)])"

declare dec_digits.simps [simp del]

definition str_int :: "int \<Rightarrow> string" where
  "str_int i = (if i < 0 then ''-'' @ dec_digits (nat (- i)) else dec_digits (nat i))"

text \<open>A naive \<^verbatim>\<open>datetime\<close> and its \<^verbatim>\<open>isoformat()\<close>.\<close>

record datetime =
  year :: nat
  month :: nat
  day :: nat
  hour :: nat
  minute :: nat
  second :: nat
  microsecond :: nat

definition isoformat :: "datetime \<Rightarrow> string" where
  "isoformat t =
     digits_str 10 4 (year t) @ ''-'' @ digits_str 10 2 (month t) @ ''-''
     @ digits_str 10 2 (day t) @ ''T'' @ digits_str 10 2 (hour t) @ '':''
     @ digits_str 10 2 (minute t) @ '':'' @ digits_str 10 2 (second t)
     @ (if microsecond t = 0 then [] else ''.'' @ digits_str 10 6 (microsecond t))"

section \<open>The tables of \<^verbatim>\<open>models.py\<close>\<close>

datatype EscrowStatus = HELD | RELEASED | FUNDS_RELEASED | REFUNDED | DISPUTED

datatype ShipmentStatus = PENDING | LOADING | IN_TRANSIT | DELIVERED

text \<open>
  \<^verbatim>\<open>DealStatus\<close>; its members \<^verbatim>\<open>IN_TRANSIT\<close> and \<^verbatim>\<open>DELIVERED\<close> carry a prefix here,
  the names being those of \<^verbatim>\<open>ShipmentStatus\<close> too.
\<close>

datatype DealStatus = NEGOTIATING | AGREED | DEAL_IN_TRANSIT | DEAL_DELIVERED | CANCELLED

text \<open>The \<^verbatim>\<open>.value\<close> of an enum member.\<close>

fun escrow_status_value :: "EscrowStatus \<Rightarrow> string" where
  "escrow_status_value HELD = ''held''"
| "escrow_status_value RELEASED = ''released''"
| "escrow_status_value FUNDS_RELEASED = ''funds_released''"
| "escrow_status_value REFUNDED = ''refunded''"
| "escrow_status_value DISPUTED = ''disputed''"

fun deal_status_value :: "DealStatus \<Rightarrow> string" where
  "deal_status_value NEGOTIATING = ''negotiating''"
| "deal_status_value AGREED = ''agreed''"
| "deal_status_value DEAL_IN_TRANSIT = ''in_transit''"
| "deal_status_value DEAL_DELIVERED = ''delivered''"
| "deal_status_value CANCELLED = ''cancelled''"

text \<open>
  A row keeps the columns the escrow router and the audit listeners read or write.
  A nullable column is an \<open>option\<close>. A table is the list of its rows, a
  \<^verbatim>\<open>SELECT ... WHERE\<close> is a \<open>filter\<close>, and the write of a changed ORM object replaces
  the rows with its primary key. Of a user the columns the router uses are kept; a
  deal and an escrow have all their columns, which the audit listeners read.
\<close>

record user =
  u_id :: uuid
  full_name :: string
  balance :: decimal
  escrow_pin_hash :: "string option"

record deal_group =
  dg_id :: uuid
  deal_number :: int
  title :: string
  dg_status :: "DealStatus option"
  seller_id :: "uuid option"
  buyer_id :: "uuid option"
  driver_id :: "uuid option"
  agreed_price_per_kg :: "decimal option"
  agreed_quantity_kg :: "decimal option"
  dg_created_at :: "datetime option"
  dg_updated_at :: "datetime option"

record shipment =
  sh_id :: uuid
  sh_deal_group_id :: "uuid option"
  sh_status :: "ShipmentStatus option"
  delivered_at :: "datetime option"

record escrow_transaction =
  e_id :: uuid
  deal_group_id :: uuid
  amount :: decimal
  currency :: "string option"
  status :: "EscrowStatus option"
  payer_id :: "uuid option"
  payee_id :: "uuid option"
  released_by_id :: "uuid option"
  idempotency_key :: "string option"
  released_at :: "datetime option"
  created_at :: "datetime option"

section \<open>The audit listeners of \<^verbatim>\<open>audit.py\<close>\<close>

text \<open>
  A column value as the listeners see it: \<open>PEnum\<close> carries the member's \<^verbatim>\<open>.value\<close>,
  \<open>PStr\<close> a string, \<open>PInt\<close> an integer. A serialized value is what
  \<^verbatim>\<open>_serialize_value\<close> hands to \<^verbatim>\<open>json.dumps\<close>.
\<close>

datatype pyval =
    PNone
  | PUUID uuid
  | PDecimal decimal
  | PDatetime datetime
  | PEnum string
  | PStr string
  | PInt int

datatype json = JNull | JString string | JFloat pyfloat

fun serialize_value :: "pyval \<Rightarrow> json" where
  "serialize_value PNone = JNull"
| "serialize_value (PUUID u) = JString (str_uuid u)"
| "serialize_value (PDecimal d) = JFloat (float_of_decimal d)"
| "serialize_value (PDatetime t) = JString (isoformat t)"
| "serialize_value (PEnum v) = JString v"
| "serialize_value (PStr s) = JString s"
| "serialize_value (PInt i) = JString (str_int i)"

text \<open>
  The attribute history the ORM keeps for a mapped instance: the lists
  \<^verbatim>\<open>added\<close>, \<^verbatim>\<open>unchanged\<close> and \<^verbatim>\<open>deleted\<close>. An instance is its primary key, its
  attributes with their histories (\<^verbatim>\<open>inspect(instance).attrs\<close>, keys distinct) and its
  current column values (\<^verbatim>\<open>mapper.column_attrs\<close> read with \<^verbatim>\<open>getattr\<close>).
\<close>

record history =
  added :: "pyval list"
  unchanged :: "pyval list"
  deleted :: "pyval list"

record orm_instance =
  inst_id :: uuid
  attrs :: "(string \<times> history) list"
  column_attrs :: "(string \<times> pyval) list"

definition has_changes :: "history \<Rightarrow> bool" where
  "has_changes hist \<longleftrightarrow> added hist \<noteq> [] \<or> deleted hist \<noteq> []"

definition first_or_none :: "pyval list \<Rightarrow> pyval" where
  "first_or_none vs = (case vs of [] \<Rightarrow> PNone | v # _ \<Rightarrow> v)"

definition get_changes :: "orm_instance \<Rightarrow> (string \<times> json \<times> json) list" where
  "get_changes target =
     map (\<lambda>(key, hist). (key, serialize_value (first_or_none (deleted hist)),
                              serialize_value (first_or_none (added hist))))
       (filter (\<lambda>(key, hist). has_changes hist) (attrs target))"

definition get_snapshot :: "orm_instance \<Rightarrow> (string \<times> json) list" where
  "get_snapshot target = map (\<lambda>(key, v). (key, serialize_value v)) (column_attrs target)"

record audit_log =
  al_action :: string
  al_table_name :: string
  al_record_id :: string
  al_changes :: "(string \<times> json \<times> json) list"
  al_snapshot :: "(string \<times> json) list"

record database =
  users :: "user list"
  deal_groups :: "deal_group list"
  shipments :: "shipment list"
  escrow_transactions :: "escrow_transaction list"
  audit_logs :: "audit_log list"

section \<open>Exceptions and query results\<close>

text \<open>
  The \<^verbatim>\<open>detail\<close> of an \<^verbatim>\<open>HTTPException\<close> is kept as the message it is and the values
  its f-string formats.
\<close>

datatype detail =
    DealNotFound uuid
  | NoEscrowForDeal int
  | AlreadyReleased
  | NotHeld string
  | PayerNotFound
  | NoPinConfigured
  | InvalidPin
  | ProducerNotFound
  | DriverNotFound
  | KeyNotReleased string

datatype error =
    HTTPException nat detail
  | MultipleResultsFound
  | NoResultFound
  | AttributeError
  | ValidationError
  | ValueError
  | DBAPIError
  | InvalidRequestError

fun scalar_one_or_none :: "'a list \<Rightarrow> error + 'a option" where
  "scalar_one_or_none [] = Inr None"
| "scalar_one_or_none [x] = Inr (Some x)"
| "scalar_one_or_none (x # y # zs) = Inl MultipleResultsFound"

fun scalar_one :: "'a list \<Rightarrow> error + 'a" where
  "scalar_one [] = Inl NoResultFound"
| "scalar_one [x] = Inr x"
| "scalar_one (x # y # zs) = Inl MultipleResultsFound"

text \<open>Truthiness of an optional string: \<^verbatim>\<open>None\<close> and the empty string are falsy.\<close>

definition str_truthy :: "string option \<Rightarrow> bool" where
  "str_truthy s = (case s of None \<Rightarrow> False | Some k \<Rightarrow> k \<noteq> [])"

section \<open>Writing the audit log\<close>

text \<open>
  The arguments of one \<^verbatim>\<open>_write_audit_log\<close> call, which a listener hands to
  \<^verbatim>\<open>loop.create_task\<close>.
\<close>

record audit_task =
  action :: string
  table_name :: string
  record_id :: string
  changes :: "(string \<times> json \<times> json) list"
  snapshot :: "(string \<times> json) list"

text \<open>
  The body of the \<^verbatim>\<open>try\<close>: the row is added in a session and a transaction of its
  own. \<open>ok\<close> says whether that session commits; otherwise it raises. The two
  \<^verbatim>\<open>json.dumps\<close> texts are kept as the structures they render.
\<close>

definition add_audit_log :: "bool \<Rightarrow> audit_task \<Rightarrow> audit_log list \<Rightarrow> error + audit_log list" where
  "add_audit_log ok task logs =
     (if ok
      then Inr (logs @ [\<lparr>al_action = action task, al_table_name = table_name task,
                         al_record_id = record_id task, al_changes = changes task,
                         al_snapshot = snapshot task\<rparr>])
      else Inl DBAPIError)"

text \<open>
  \<^verbatim>\<open>_write_audit_log\<close>: the \<^verbatim>\<open>except Exception\<close> logs the failure and returns, so the
  result is never an exception.
\<close>

definition write_audit_log :: "bool \<Rightarrow> audit_task \<Rightarrow> audit_log list \<Rightarrow> (error + unit) \<times> audit_log list" where
  "write_audit_log ok task logs =
     (case add_audit_log ok task logs of
        Inr logs' \<Rightarrow> (Inr (), logs')
      | Inl exc \<Rightarrow> (Inr (), logs))"

text \<open>
  The four listeners of \<^verbatim>\<open>register_audit_listeners\<close>. Each returns the tasks it
  creates on the event loop; without a running loop (\<open>loop = False\<close>)
  \<^verbatim>\<open>get_running_loop\<close> raises \<^verbatim>\<open>RuntimeError\<close> and the listener only logs a line.
\<close>

definition escrow_after_insert :: "bool \<Rightarrow> orm_instance \<Rightarrow> audit_task list" where
  "escrow_after_insert loop target =
     (let snapshot = get_snapshot target
      in if loop
         then [\<lparr>action = ''INSERT'', table_name = ''escrow_transactions'',
                 record_id = str_uuid (inst_id target), changes = [], snapshot = snapshot\<rparr>]
         else [])"

definition escrow_after_update :: "bool \<Rightarrow> orm_instance \<Rightarrow> audit_task list" where
  "escrow_after_update loop target =
     (let changes = get_changes target
      in if changes = [] then []
         else (let snapshot = get_snapshot target
               in if loop
                  then [\<lparr>action = ''UPDATE'', table_name = ''escrow_transactions'',
                          record_id = str_uuid (inst_id target), changes = changes,
                          snapshot = snapshot\<rparr>]
                  else []))"

definition deal_after_insert :: "bool \<Rightarrow> orm_instance \<Rightarrow> audit_task list" where
  "deal_after_insert loop target =
     (let snapshot = get_snapshot target
      in if loop
         then [\<lparr>action = ''INSERT'', table_name = ''deal_groups'',
                 record_id = str_uuid (inst_id target), changes = [], snapshot = snapshot\<rparr>]
         else [])"

definition deal_after_update :: "bool \<Rightarrow> orm_instance \<Rightarrow> audit_task list" where
  "deal_after_update loop target =
     (let changes = get_changes target
      in if changes = [] then []
         else (let snapshot = get_snapshot target
               in if loop
                  then [\<lparr>action = ''UPDATE'', table_name = ''deal_groups'',
                          record_id = str_uuid (inst_id target), changes = changes,
                          snapshot = snapshot\<rparr>]
                  else []))"

text \<open>The tasks run on the event loop, each writing its entry.\<close>

fun run_audit_tasks :: "bool \<Rightarrow> audit_task list \<Rightarrow> audit_log list \<Rightarrow> audit_log list" where
  "run_audit_tasks ok [] logs = logs"
| "run_audit_tasks ok (task # tasks) logs =
     run_audit_tasks ok tasks (snd (write_audit_log ok task logs))"

subsection \<open>Change tracking of the ORM\<close>

text \<open>
  What the listeners are given when a loaded row is changed and flushed. The ORM
  compares the loaded value of a scalar attribute with the one the session assigned
  by \<^verbatim>\<open>==\<close> (decimals by value): an equal value is \<^verbatim>\<open>unchanged\<close>, a different one is
  \<^verbatim>\<open>added\<close> with the loaded value \<^verbatim>\<open>deleted\<close>.

  A column with an \<^verbatim>\<open>onupdate\<close> that the session did not assign is filled by the
  \<^verbatim>\<open>UPDATE\<close> itself: the instance then shows the new value (\<open>stamp\<close>), and its
  history shows no change.
\<close>

fun py_eq :: "pyval \<Rightarrow> pyval \<Rightarrow> bool" where
  "py_eq (PDecimal a) (PDecimal b) \<longleftrightarrow> coeff a * 10 ^ places b = coeff b * 10 ^ places a"
| "py_eq a b \<longleftrightarrow> a = b"

definition attribute_history :: "pyval \<Rightarrow> pyval \<Rightarrow> history" where
  "attribute_history original current =
     (if py_eq current original
      then \<lparr>added = [], unchanged = [current], deleted = []\<rparr>
      else \<lparr>added = [current], unchanged = [], deleted = [original]\<rparr>)"

definition tracked ::
  "uuid \<Rightarrow> string list \<Rightarrow> pyval \<Rightarrow> (string \<times> pyval) list \<Rightarrow> (string \<times> pyval) list \<Rightarrow> orm_instance" where
  "tracked pk onupdate stamp loaded assigned =
     \<lparr>inst_id = pk,
      attrs = map (\<lambda>((key, original), (_, v)). (key, attribute_history original v))
                (zip loaded assigned),
      column_attrs =
        map (\<lambda>((key, original), (_, v)).
               (key, if key \<in> set onupdate \<and> py_eq v original then stamp else v))
          (zip loaded assigned)\<rparr>"

definition opt_val :: "('a \<Rightarrow> pyval) \<Rightarrow> 'a option \<Rightarrow> pyval" where
  "opt_val f v = (case v of None \<Rightarrow> PNone | Some x \<Rightarrow> f x)"

text \<open>
  The mapped columns of \<^verbatim>\<open>EscrowTransaction\<close>, in the order of the class; none has
  an \<^verbatim>\<open>onupdate\<close>.
\<close>

definition escrow_columns :: "escrow_transaction \<Rightarrow> (string \<times> pyval) list" where
  "escrow_columns e =
     [(''id'', PUUID (e_id e)),
      (''deal_group_id'', PUUID (deal_group_id e)),
      (''amount'', PDecimal (amount e)),
      (''currency'', opt_val PStr (currency e)),
      (''status'', opt_val (\<lambda>st. PEnum (escrow_status_value st)) (status e)),
      (''payer_id'', opt_val PUUID (payer_id e)),
      (''payee_id'', opt_val PUUID (payee_id e)),
      (''released_by_id'', opt_val PUUID (released_by_id e)),
      (''idempotency_key'', opt_val PStr (idempotency_key e)),
      (''released_at'', opt_val PDatetime (released_at e)),
      (''created_at'', opt_val PDatetime (created_at e))]"

definition escrow_instance :: "escrow_transaction \<Rightarrow> escrow_transaction \<Rightarrow> orm_instance" where
  "escrow_instance loaded assigned =
     tracked (e_id assigned) [] PNone (escrow_columns loaded) (escrow_columns assigned)"

text \<open>
  The mapped columns of \<^verbatim>\<open>DealGroup\<close>; \<^verbatim>\<open>updated_at\<close> has
  \<^verbatim>\<open>onupdate=datetime.utcnow\<close>, and \<open>now\<close> is the clock when the row is flushed. The
  relationship \<^verbatim>\<open>messages\<close> is an attribute too; no code of the repository changes
  it through the deal, so its history is empty and it adds nothing to a diff.
\<close>

definition deal_columns :: "deal_group \<Rightarrow> (string \<times> pyval) list" where
  "deal_columns d =
     [(''id'', PUUID (dg_id d)),
      (''deal_number'', PInt (deal_number d)),
      (''title'', PStr (title d)),
      (''status'', opt_val (\<lambda>st. PEnum (deal_status_value st)) (dg_status d)),
      (''seller_id'', opt_val PUUID (seller_id d)),
      (''buyer_id'', opt_val PUUID (buyer_id d)),
      (''driver_id'', opt_val PUUID (driver_id d)),
      (''agreed_price_per_kg'', opt_val PDecimal (agreed_price_per_kg d)),
      (''agreed_quantity_kg'', opt_val PDecimal (agreed_quantity_kg d)),
      (''created_at'', opt_val PDatetime (dg_created_at d)),
      (''updated_at'', opt_val PDatetime (dg_updated_at d))]"

definition deal_instance :: "datetime \<Rightarrow> deal_group \<Rightarrow> deal_group \<Rightarrow> orm_instance" where
  "deal_instance now loaded assigned =
     tracked (dg_id assigned) [''updated_at''] (PDatetime now)
       (deal_columns loaded) (deal_columns assigned)"

section \<open>The escrow router of \<^verbatim>\<open>routers/escrow.py\<close>\<close>

subsection \<open>Request and response\<close>

record release_request =
  deal_id :: uuid
  pin :: string
  rq_idempotency_key :: "string option"

text \<open>The \<^verbatim>\<open>message\<close> of a response, as the text it is and the values it formats.\<close>

datatype message =
    ReleasedMessage int string pyfloat string pyfloat string
  | ReplayMessage

record balance_credit =
  bc_user_id :: string
  bc_user_name :: string
  bc_role :: string
  bc_amount :: pyfloat
  bc_percentage :: nat

record release_response =
  r_status :: string
  r_deal_number :: int
  r_deal_title :: string
  r_escrow_id :: string
  r_amount :: pyfloat
  r_currency :: string
  producer_credit :: balance_credit
  driver_credit :: balance_credit
  r_released_at :: datetime
  r_idempotency_key :: "string option"
  r_message :: message

subsection \<open>Step 1: the idempotency check, before the transaction\<close>

text \<open>
  The response of a replay. \<^verbatim>\<open>currency: str\<close> is a required field of the response
  model, so a \<^verbatim>\<open>NULL\<close> currency fails its validation.
\<close>

definition cached_response ::
  "datetime \<Rightarrow> release_request \<Rightarrow> escrow_transaction \<Rightarrow> deal_group \<Rightarrow> error + release_response" where
  "cached_response now request existing_escrow deal =
     (case currency existing_escrow of
        None \<Rightarrow> Inl ValidationError
      | Some cur \<Rightarrow>
          Inr \<lparr>r_status = ''funds_released'',
               r_deal_number = deal_number deal,
               r_deal_title = title deal,
               r_escrow_id = str_uuid (e_id existing_escrow),
               r_amount = float_of_decimal (amount existing_escrow),
               r_currency = cur,
               producer_credit =
                 \<lparr>bc_user_id = ''cached'', bc_user_name = ''cached'', bc_role = ''producer'',
                  bc_amount = float_of_decimal (dec_mul (amount existing_escrow) PRODUCER_SHARE),
                  bc_percentage = 90\<rparr>,
               driver_credit =
                 \<lparr>bc_user_id = ''cached'', bc_user_name = ''cached'', bc_role = ''driver'',
                  bc_amount = float_of_decimal (dec_mul (amount existing_escrow) DRIVER_SHARE),
                  bc_percentage = 10\<rparr>,
               r_released_at = (case released_at existing_escrow of Some t \<Rightarrow> t | None \<Rightarrow> now),
               r_idempotency_key = rq_idempotency_key request,
               r_message = ReplayMessage\<rparr>)"

text \<open>
  \<open>None\<close>: the check falls through to the transaction. \<open>Some r\<close>: the handler ends
  here, returning the cached response or raising.
\<close>

definition idempotency_check ::
  "datetime \<Rightarrow> release_request \<Rightarrow> database \<Rightarrow> (error + release_response) option" where
  "idempotency_check now request s =
     (if str_truthy (rq_idempotency_key request)
      then (case scalar_one_or_none
                   (filter (\<lambda>e. idempotency_key e = rq_idempotency_key request)
                      (escrow_transactions s)) of
              Inl exc \<Rightarrow> Some (Inl exc)
            | Inr None \<Rightarrow> None
            | Inr (Some existing_escrow) \<Rightarrow>
                if status existing_escrow = Some FUNDS_RELEASED
                then (case scalar_one
                             (filter (\<lambda>d. dg_id d = deal_group_id existing_escrow)
                                (deal_groups s)) of
                        Inl exc \<Rightarrow> Some (Inl exc)
                      | Inr deal \<Rightarrow> Some (cached_response now request existing_escrow deal))
                else (case status existing_escrow of
                        None \<Rightarrow> Some (Inl AttributeError)
                      | Some st \<Rightarrow>
                          Some (Inl (HTTPException 409 (KeyNotReleased (escrow_status_value st))))))
      else None)"

text \<open>
  What a replay answers for a settlement that answered \<open>resp\<close>: the same response
  with the user id and user name of both credits replaced by the literal
  \<^verbatim>\<open>"cached"\<close> and the message by the replay message.
\<close>

definition replayed :: "release_response \<Rightarrow> release_response" where
  "replayed resp =
     resp\<lparr>producer_credit := (producer_credit resp)\<lparr>bc_user_id := ''cached'', bc_user_name := ''cached''\<rparr>,
          driver_credit := (driver_credit resp)\<lparr>bc_user_id := ''cached'', bc_user_name := ''cached''\<rparr>,
          r_message := ReplayMessage\<rparr>"

subsection \<open>Steps 2 to 5: the checks inside the transaction\<close>

text \<open>
  The deal, the escrow row of the deal (\<^verbatim>\<open>FOR UPDATE\<close>: the lock orders concurrent
  transactions and changes no value) and the state of the escrow.
\<close>

definition lock_escrow :: "release_request \<Rightarrow> database \<Rightarrow> error + deal_group \<times> escrow_transaction" where
  "lock_escrow request s =
     (case scalar_one_or_none (filter (\<lambda>d. dg_id d = deal_id request) (deal_groups s)) of
        Inl exc \<Rightarrow> Inl exc
      | Inr None \<Rightarrow> Inl (HTTPException 404 (DealNotFound (deal_id request)))
      | Inr (Some deal) \<Rightarrow>
          (case scalar_one_or_none
                  (filter (\<lambda>e. deal_group_id e = dg_id deal) (escrow_transactions s)) of
             Inl exc \<Rightarrow> Inl exc
           | Inr None \<Rightarrow> Inl (HTTPException 404 (NoEscrowForDeal (deal_number deal)))
           | Inr (Some escrow) \<Rightarrow>
               if status escrow = Some FUNDS_RELEASED
               then Inl (HTTPException 409 AlreadyReleased)
               else if status escrow \<noteq> Some HELD
               then (case status escrow of
                       None \<Rightarrow> Inl AttributeError
                     | Some st \<Rightarrow> Inl (HTTPException 400 (NotHeld (escrow_status_value st))))
               else Inr (deal, escrow)))"

text \<open>
  \<open>checkpw\<close> is \<^verbatim>\<open>bcrypt.checkpw\<close> on the encoded PIN and hash: \<open>None\<close> where it
  raises \<^verbatim>\<open>ValueError\<close> (a stored hash that is no bcrypt hash).
\<close>

definition verify_payer ::
  "(string \<Rightarrow> string \<Rightarrow> bool option) \<Rightarrow> release_request \<Rightarrow> escrow_transaction \<Rightarrow> database \<Rightarrow> error + user" where
  "verify_payer checkpw request escrow s =
     (case scalar_one_or_none (filter (\<lambda>u. Some (u_id u) = payer_id escrow) (users s)) of
        Inl exc \<Rightarrow> Inl exc
      | Inr None \<Rightarrow> Inl (HTTPException 404 PayerNotFound)
      | Inr (Some payer) \<Rightarrow>
          (case escrow_pin_hash payer of
             None \<Rightarrow> Inl (HTTPException 403 NoPinConfigured)
           | Some hashed_pin \<Rightarrow>
               if hashed_pin = [] then Inl (HTTPException 403 NoPinConfigured)
               else (case checkpw (pin request) hashed_pin of
                       None \<Rightarrow> Inl ValueError
                     | Some ok \<Rightarrow>
                         if \<not> ok then Inl (HTTPException 403 InvalidPin) else Inr payer)))"

subsection \<open>Steps 6 to 10: the settlement\<close>

text \<open>
  The write of a changed ORM object: the rows with its primary key are replaced.
  \<^verbatim>\<open>User.balance\<close> is a \<^verbatim>\<open>Numeric(12, 2)\<close> column: the \<^verbatim>\<open>UPDATE\<close> stores the balance
  rounded to the cent, and fails with \<^verbatim>\<open>DBAPIError\<close> (numeric field overflow) when the
  rounded value has more than ten digits before the point.
\<close>

definition store_numeric_12_2 :: "decimal \<Rightarrow> error + decimal" where
  "store_numeric_12_2 d =
     (if \<bar>coeff (quantize_cents d)\<bar> < 10 ^ 12 then Inr (quantize_cents d) else Inl DBAPIError)"

definition update_escrow :: "escrow_transaction \<Rightarrow> escrow_transaction list \<Rightarrow> escrow_transaction list" where
  "update_escrow e rows = map (\<lambda>r. if e_id r = e_id e then e else r) rows"

definition update_user :: "user \<Rightarrow> user list \<Rightarrow> error + user list" where
  "update_user u rows =
     (case store_numeric_12_2 (balance u) of
        Inl exc \<Rightarrow> Inl exc
      | Inr stored \<Rightarrow> Inr (map (\<lambda>r. if u_id r = u_id u then u\<lparr>balance := stored\<rparr> else r) rows))"

definition update_shipment :: "shipment \<Rightarrow> shipment list \<Rightarrow> shipment list" where
  "update_shipment sh rows = map (\<lambda>r. if sh_id r = sh_id sh then sh else r) rows"

definition producer_amount :: "escrow_transaction \<Rightarrow> decimal" where
  "producer_amount escrow = dec_mul (amount escrow) PRODUCER_SHARE"

definition driver_amount :: "escrow_transaction \<Rightarrow> decimal" where
  "driver_amount escrow = dec_mul (amount escrow) DRIVER_SHARE"

text \<open>\<^verbatim>\<open>(account.balance or Decimal("0")) + amount\<close>.\<close>

definition credit :: "user \<Rightarrow> decimal \<Rightarrow> user" where
  "credit account a =
     account\<lparr>balance :=
       dec_add (if dec_truthy (balance account) then balance account else Decimal 0 0) a\<rparr>"

text \<open>Step 6: the escrow object after its four assignments.\<close>

definition mark_released :: "datetime \<Rightarrow> release_request \<Rightarrow> user \<Rightarrow> escrow_transaction \<Rightarrow> escrow_transaction" where
  "mark_released now request payer escrow =
     escrow\<lparr>status := Some FUNDS_RELEASED,
            released_at := Some now,
            released_by_id := Some (u_id payer),
            idempotency_key :=
              (if str_truthy (rq_idempotency_key request) then rq_idempotency_key request
               else idempotency_key escrow)\<rparr>"

text \<open>
  The settlement returns its result, the rows as the transaction has written them
  when it ends or raises, and the audit tasks created meanwhile. The session
  autoflushes before each query: the query for the producer first writes the changed
  escrow, and that \<^verbatim>\<open>UPDATE\<close> calls \<^verbatim>\<open>escrow_after_update\<close>; the query for the driver
  first writes the producer, and the query for the shipment the driver. The users and
  the shipment have no listener.

  A query returns the session's own object for a row it has loaded already, with the
  values the session assigned: when the driver is the producer's row, the driver's
  credit is added to the balance the session holds (not yet rounded), not to the one
  the row stores.
\<close>

definition settle ::
  "bool \<Rightarrow> datetime \<Rightarrow> release_request \<Rightarrow> deal_group \<Rightarrow> escrow_transaction \<Rightarrow> user \<Rightarrow> database
     \<Rightarrow> (error + release_response) \<times> database \<times> audit_task list" where
  "settle loop now request deal escrow0 payer s =
     (let escrow = mark_released now request payer escrow0;
          s1 = s\<lparr>escrow_transactions := update_escrow escrow (escrow_transactions s)\<rparr>;
          tasks = escrow_after_update loop (escrow_instance escrow0 escrow)
      in case scalar_one_or_none (filter (\<lambda>u. Some (u_id u) = seller_id deal) (users s1)) of
           Inl exc \<Rightarrow> (Inl exc, s1, tasks)
         | Inr None \<Rightarrow> (Inl (HTTPException 404 ProducerNotFound), s1, tasks)
         | Inr (Some producer0) \<Rightarrow>
             (let producer = credit producer0 (producer_amount escrow)
              in case update_user producer (users s1) of
                   Inl exc \<Rightarrow> (Inl exc, s1, tasks)
                 | Inr users2 \<Rightarrow>
             (let s2 = s1\<lparr>users := users2\<rparr>
              in case scalar_one_or_none
                        (filter (\<lambda>u. Some (u_id u) = driver_id deal) (users s2)) of
                   Inl exc \<Rightarrow> (Inl exc, s2, tasks)
                 | Inr None \<Rightarrow> (Inl (HTTPException 404 DriverNotFound), s2, tasks)
                 | Inr (Some driver_row) \<Rightarrow>
                     (let driver0 = (if u_id driver_row = u_id producer then producer
                                     else driver_row);
                          driver = credit driver0 (driver_amount escrow)
                      in case update_user driver (users s2) of
                           Inl exc \<Rightarrow> (Inl exc, s2, tasks)
                         | Inr users3 \<Rightarrow>
                     (let s3 = s2\<lparr>users := users3\<rparr>
                      in case scalar_one_or_none
                                (filter (\<lambda>r. sh_deal_group_id r = Some (dg_id deal))
                                   (shipments s3)) of
                           Inl exc \<Rightarrow> (Inl exc, s3, tasks)
                         | Inr shipment \<Rightarrow>
                             (let s4 = (case shipment of
                                          None \<Rightarrow> s3
                                        | Some sh \<Rightarrow>
                                            s3\<lparr>shipments :=
                                              update_shipment
                                                (sh\<lparr>sh_status := Some DELIVERED,
                                                    delivered_at := Some now\<rparr>)
                                                (shipments s3)\<rparr>)
                              in case currency escrow of
                                   None \<Rightarrow> (Inl ValidationError, s4, tasks)
                                 | Some cur \<Rightarrow>
                                     (Inr \<lparr>r_status = ''funds_released'',
                                           r_deal_number = deal_number deal,
                                           r_deal_title = title deal,
                                           r_escrow_id = str_uuid (e_id escrow),
                                           r_amount = float_of_decimal (amount escrow),
                                           r_currency = cur,
                                           producer_credit =
                                             \<lparr>bc_user_id = str_uuid (u_id producer),
                                              bc_user_name = full_name producer,
                                              bc_role = ''producer'',
                                              bc_amount = float_of_decimal (producer_amount escrow),
                                              bc_percentage = 90\<rparr>,
                                           driver_credit =
                                             \<lparr>bc_user_id = str_uuid (u_id driver),
                                              bc_user_name = full_name driver,
                                              bc_role = ''driver'',
                                              bc_amount = float_of_decimal (driver_amount escrow),
                                              bc_percentage = 10\<rparr>,
                                           r_released_at = now,
                                           r_idempotency_key = rq_idempotency_key request,
                                           r_message =
                                             ReleasedMessage (deal_number deal) (title deal)
                                               (float_of_decimal (producer_amount escrow))
                                               (full_name producer)
                                               (float_of_decimal (driver_amount escrow))
                                               (full_name driver)\<rparr>,
                                      s4, tasks)))))))"

definition release_transaction ::
  "(string \<Rightarrow> string \<Rightarrow> bool option) \<Rightarrow> bool \<Rightarrow> datetime \<Rightarrow> release_request \<Rightarrow> database
     \<Rightarrow> (error + release_response) \<times> database \<times> audit_task list" where
  "release_transaction checkpw loop now request s =
     (case lock_escrow request s of
        Inl exc \<Rightarrow> (Inl exc, s, [])
      | Inr (deal, escrow) \<Rightarrow>
          (case verify_payer checkpw request escrow s of
             Inl exc \<Rightarrow> (Inl exc, s, [])
           | Inr payer \<Rightarrow> settle loop now request deal escrow payer s))"

text \<open>
  \<^verbatim>\<open>async with session.begin()\<close>: the block's writes are committed when it returns
  and rolled back when it raises. The audit tasks are on the event loop, not in the
  transaction: a rollback leaves them.
\<close>

definition session_begin ::
  "database \<Rightarrow> (error + 'a) \<times> database \<times> audit_task list
     \<Rightarrow> (error + 'a) \<times> database \<times> audit_task list" where
  "session_begin s block =
     (case block of
        (Inl exc, s', tasks) \<Rightarrow> (Inl exc, s, tasks)
      | (Inr v, s', tasks) \<Rightarrow> (Inr v, s', tasks))"

text \<open>
  \<^verbatim>\<open>release_escrow\<close>: the result, the database after the call and the audit tasks it
  left on the event loop. \<open>now\<close> is the clock, \<open>loop\<close> whether an event loop runs.

  The query of the idempotency check begins the session's transaction by itself.
  When the check then falls through (no escrow has the key), \<^verbatim>\<open>session.begin()\<close>
  finds a transaction already begun and raises \<^verbatim>\<open>InvalidRequestError\<close> before any row
  is read for the settlement. The settlement runs for a request without a key (or
  with an empty one), which makes no query before the block.
\<close>

definition release_escrow ::
  "(string \<Rightarrow> string \<Rightarrow> bool option) \<Rightarrow> bool \<Rightarrow> datetime \<Rightarrow> release_request \<Rightarrow> database
     \<Rightarrow> (error + release_response) \<times> database \<times> audit_task list" where
  "release_escrow checkpw loop now request s =
     (case idempotency_check now request s of
        Some r \<Rightarrow> (r, s, [])
      | None \<Rightarrow>
          if str_truthy (rq_idempotency_key request) then (Inl InvalidRequestError, s, [])
          else session_begin s (release_transaction checkpw loop now request s))"

text \<open>
  One request served: the handler, then the audit tasks it created. \<open>audit_ok\<close> says
  whether the audit session can write.
\<close>

definition serve_release ::
  "(string \<Rightarrow> string \<Rightarrow> bool option) \<Rightarrow> bool \<Rightarrow> bool \<Rightarrow> datetime \<Rightarrow> release_request \<Rightarrow> database
     \<Rightarrow> (error + release_response) \<times> database" where
  "serve_release checkpw loop audit_ok now request s =
     (case release_escrow checkpw loop now request s of
        (result, s', tasks) \<Rightarrow>
          (result, s'\<lparr>audit_logs := run_audit_tasks audit_ok tasks (audit_logs s')\<rparr>))"

section \<open>The seeded deal\<close>

text \<open>
  The rows \<^verbatim>\<open>seed.py\<close> inserts for deal 901: the producer, the retailer (the payer,
  with the hash of the demo PIN) and the driver, a shipment in transit and an escrow
  of 4380.00 held. \<open>demo_checkpw\<close> stands for bcrypt on hashes written
  \<^verbatim>\<open>bcrypt:<pin>\<close>.
\<close>

definition seed_producer :: user where
  "seed_producer = \<lparr>u_id = 0xa1b2c3d4000140008000000000000001,
     full_name = ''Namangan Valley Farms'', balance = Decimal 0 2, escrow_pin_hash = None\<rparr>"

definition seed_retailer :: user where
  "seed_retailer = \<lparr>u_id = 0xa1b2c3d4000240008000000000000002,
     full_name = ''Korzinka Market'', balance = Decimal 0 2,
     escrow_pin_hash = Some ''bcrypt:1234''\<rparr>"

definition seed_driver :: user where
  "seed_driver = \<lparr>u_id = 0xa1b2c3d4000340008000000000000003,
     full_name = ''Alisher Karimov'', balance = Decimal 0 2, escrow_pin_hash = None\<rparr>"

definition seed_time :: datetime where
  "seed_time = \<lparr>year = 2026, month = 2, day = 27, hour = 1, minute = 0, second = 0,
     microsecond = 0\<rparr>"

definition seed_deal :: deal_group where
  "seed_deal = \<lparr>dg_id = 0xd0000000000040008000000000000901, deal_number = 901,
     title = ''Golden Apples'', dg_status = Some AGREED,
     seller_id = Some (u_id seed_producer), buyer_id = Some (u_id seed_retailer),
     driver_id = Some (u_id seed_driver), agreed_price_per_kg = Some (Decimal 365 2),
     agreed_quantity_kg = Some (Decimal 1200 0), dg_created_at = Some seed_time,
     dg_updated_at = Some seed_time\<rparr>"

definition seed_shipment :: shipment where
  "seed_shipment = \<lparr>sh_id = 0x50000000000040008000000000000001,
     sh_deal_group_id = Some (dg_id seed_deal), sh_status = Some IN_TRANSIT,
     delivered_at = None\<rparr>"

definition seed_escrow :: escrow_transaction where
  "seed_escrow = \<lparr>e_id = 0xe0000000000040008000000000000001,
     deal_group_id = dg_id seed_deal, amount = Decimal 438000 2, currency = Some ''USD'',
     status = Some HELD, payer_id = Some (u_id seed_retailer),
     payee_id = Some (u_id seed_producer), released_by_id = None, idempotency_key = None,
     released_at = None, created_at = Some seed_time\<rparr>"

definition seed_db :: database where
  "seed_db = \<lparr>users = [seed_producer, seed_retailer, seed_driver],
     deal_groups = [seed_deal], shipments = [seed_shipment],
     escrow_transactions = [seed_escrow], audit_logs = []\<rparr>"

definition demo_checkpw :: "string \<Rightarrow> string \<Rightarrow> bool option" where
  "demo_checkpw plain hashed =
     (if take 7 hashed = ''bcrypt:'' then Some (drop 7 hashed = plain) else None)"

definition demo_now :: datetime where
  "demo_now = \<lparr>year = 2026, month = 2, day = 27, hour = 5, minute = 30, second = 0,
     microsecond = 0\<rparr>"

definition demo_request :: release_request where
  "demo_request = \<lparr>deal_id = dg_id seed_deal, pin = ''1234'',
     rq_idempotency_key = Some ''release-901''\<rparr>"

text \<open>
  Variations of the seeded deal: a request without a key, the escrow already released
  or disputed, a key recorded on the held escrow, the deal before a driver is
  assigned, an escrow of five cents, an escrow row whose status is \<^verbatim>\<open>NULL\<close>, and the
  rows after the release of the seeded deal with a key recorded on the escrow.
\<close>

definition keyless_request :: release_request where
  "keyless_request = demo_request\<lparr>rq_idempotency_key := None\<rparr>"

definition released_db :: database where
  "released_db = seed_db\<lparr>escrow_transactions := [seed_escrow\<lparr>status := Some FUNDS_RELEASED\<rparr>]\<rparr>"

definition disputed_db :: database where
  "disputed_db = seed_db\<lparr>escrow_transactions := [seed_escrow\<lparr>status := Some DISPUTED\<rparr>]\<rparr>"

definition keyed_db :: database where
  "keyed_db = seed_db\<lparr>escrow_transactions :=
     [seed_escrow\<lparr>idempotency_key := Some ''release-901''\<rparr>]\<rparr>"

definition legacy_db :: database where
  "legacy_db = seed_db\<lparr>escrow_transactions := [seed_escrow\<lparr>status := Some RELEASED\<rparr>]\<rparr>"

definition demo_later :: datetime where
  "demo_later = \<lparr>year = 2026, month = 2, day = 27, hour = 6, minute = 15, second = 0,
     microsecond = 0\<rparr>"

definition other_request :: release_request where
  "other_request = \<lparr>deal_id = 0, pin = ''0000'', rq_idempotency_key = Some ''release-901''\<rparr>"

definition driverless_db :: database where
  "driverless_db = seed_db\<lparr>deal_groups := [seed_deal\<lparr>driver_id := None\<rparr>]\<rparr>"

definition cent_db :: database where
  "cent_db = seed_db\<lparr>escrow_transactions := [seed_escrow\<lparr>amount := Decimal 5 2\<rparr>]\<rparr>"

definition null_db :: database where
  "null_db = seed_db\<lparr>escrow_transactions := [seed_escrow\<lparr>status := None\<rparr>]\<rparr>"

definition null_keyed_db :: database where
  "null_keyed_db = seed_db\<lparr>escrow_transactions :=
     [seed_escrow\<lparr>status := None, idempotency_key := Some ''release-901''\<rparr>]\<rparr>"

definition settled_escrow :: escrow_transaction where
  "settled_escrow = seed_escrow\<lparr>status := Some FUNDS_RELEASED, released_at := Some demo_now,
     released_by_id := Some (u_id seed_retailer), idempotency_key := Some ''release-901''\<rparr>"

definition settled_db :: database where
  "settled_db = \<lparr>users = [seed_producer\<lparr>balance := Decimal 394200 2\<rparr>, seed_retailer,
       seed_driver\<lparr>balance := Decimal 43800 2\<rparr>],
     deal_groups = [seed_deal],
     shipments = [seed_shipment\<lparr>sh_status := Some DELIVERED, delivered_at := Some demo_now\<rparr>],
     escrow_transactions = [settled_escrow], audit_logs = []\<rparr>"


section \<open>The split\<close>

lemma dec_val_producer_amount:
  "dec_val (producer_amount escrow) = 9 / 10 * dec_val (amount escrow)"
  by (simp add: producer_amount_def dec_mul_def dec_val_def PRODUCER_SHARE_def Decimal_def
      power_add)

lemma dec_val_driver_amount:
  "dec_val (driver_amount escrow) = 1 / 10 * dec_val (amount escrow)"
  by (simp add: driver_amount_def dec_mul_def dec_val_def DRIVER_SHARE_def Decimal_def
      power_add)

lemma dec_val_add: "dec_val (dec_add a b) = dec_val a + dec_val b"
proof -
  define p where "p = max (places a) (places b)"
  have a: "places a \<le> p" and b: "places b \<le> p"
    by (simp_all add: p_def)
  have pa: "(10::rat) ^ p = 10 ^ (p - places a) * 10 ^ places a"
    using a by (simp flip: power_add)
  have pb: "(10::rat) ^ p = 10 ^ (p - places b) * 10 ^ places b"
    using b by (simp flip: power_add)
  have "dec_val (dec_add a b)
      = (of_int (coeff a) * 10 ^ (p - places a) + of_int (coeff b) * 10 ^ (p - places b)) / 10 ^ p"
    by (simp add: dec_add_def dec_val_def Let_def p_def)
  also have "\<dots> = of_int (coeff a) * 10 ^ (p - places a) / 10 ^ p
      + of_int (coeff b) * 10 ^ (p - places b) / 10 ^ p"
    by (simp add: add_divide_distrib)
  also have "of_int (coeff a) * 10 ^ (p - places a) / (10::rat) ^ p = dec_val a"
    by (subst pa) (simp add: dec_val_def)
  also have "of_int (coeff b) * 10 ^ (p - places b) / (10::rat) ^ p = dec_val b"
    by (subst pb) (simp add: dec_val_def)
  finally show ?thesis .
qed

lemma dec_val_credit:
  "dec_val (balance (credit account a)) = dec_val (balance account) + dec_val a"
  by (simp add: credit_def dec_val_add dec_truthy_def) (simp add: dec_val_def Decimal_def)

section \<open>What the balance column stores\<close>

lemma round_half_away_of_int: "round_half_away (of_int n) = n"
proof -
  have a: "\<lfloor>(of_int n :: rat) + 1 / 2\<rfloor> = n" by (rule floor_unique) simp_all
  have b: "\<lfloor>- (of_int n :: rat) + 1 / 2\<rfloor> = - n"
    by (rule floor_unique) simp_all
  show ?thesis
    unfolding round_half_away_def using a b by simp
qed

lemma round_half_away_nonneg: "0 \<le> x \<Longrightarrow> 0 \<le> round_half_away x"
  unfolding round_half_away_def by simp

lemma round_half_away_nonpos: "x \<le> 0 \<Longrightarrow> round_half_away x \<le> 0"
proof -
  assume x: "x \<le> 0"
  show ?thesis
  proof (cases "x = 0")
    case True
    then show ?thesis using round_half_away_of_int [of 0] by simp
  next
    case False
    with x have "0 \<le> \<lfloor>- x + 1 / 2\<rfloor>" by simp
    with False x show ?thesis unfolding round_half_away_def by simp
  qed
qed

lemma round_half_away_mono: "x \<le> y \<Longrightarrow> round_half_away x \<le> round_half_away y"
proof -
  assume xy: "x \<le> y"
  consider "0 \<le> x" | "y < 0" | "x < 0" "0 \<le> y" by linarith
  then show ?thesis
  proof cases
    case 1
    with xy have "0 \<le> y" by simp
    with 1 xy show ?thesis unfolding round_half_away_def by (simp add: floor_mono)
  next
    case 2
    with xy have "x < 0" by simp
    moreover from xy have "\<lfloor>- y + 1 / 2\<rfloor> \<le> \<lfloor>- x + 1 / 2\<rfloor>" by (simp add: floor_mono)
    ultimately show ?thesis using 2 unfolding round_half_away_def by simp
  next
    case 3
    have "round_half_away x \<le> 0" using 3 by (simp add: round_half_away_nonpos)
    also have "0 \<le> round_half_away y" using 3 by (simp add: round_half_away_nonneg)
    finally show ?thesis .
  qed
qed

lemma dec_val_quantize_cents:
  "dec_val (quantize_cents d) = of_int (round_half_away (dec_val d * 100)) / 100"
  by (simp add: quantize_cents_def dec_val_def)

lemma quantize_cents_mono:
  "dec_val a \<le> dec_val b \<Longrightarrow> dec_val (quantize_cents a) \<le> dec_val (quantize_cents b)"
  by (simp add: dec_val_quantize_cents round_half_away_mono divide_right_mono)


lemma quantize_cents_two_places:
  "places d = 2 \<Longrightarrow> quantize_cents d = d"
proof -
  assume p: "places d = 2"
  then have "dec_val d * 100 = of_int (coeff d)" by (simp add: dec_val_def)
  then have "round_half_away (dec_val d * 100) = coeff d"
    by (simp add: round_half_away_of_int)
  with p show ?thesis by (simp add: quantize_cents_def)
qed

lemma store_numeric_12_2_InrD:
  "store_numeric_12_2 d = Inr b \<Longrightarrow> b = quantize_cents d \<and> numeric_12_2 b"
  by (auto simp: store_numeric_12_2_def numeric_12_2_def quantize_cents_def split: if_splits)

lemma update_user_InrD:
  assumes "update_user u rows = Inr rows'"
  shows "rows' = map (\<lambda>r. if u_id r = u_id u then u\<lparr>balance := quantize_cents (balance u)\<rparr> else r) rows"
    and "numeric_12_2 (quantize_cents (balance u))"
  using assms
  by (auto simp: update_user_def split: sum.splits dest!: store_numeric_12_2_InrD)

section \<open>Query results\<close>

lemma scalar_one_or_none_SomeD: "scalar_one_or_none xs = Inr (Some x) \<Longrightarrow> xs = [x]"
  by (cases xs rule: scalar_one_or_none.cases) auto

lemma scalar_one_or_none_NoneD: "scalar_one_or_none xs = Inr None \<Longrightarrow> xs = []"
  by (cases xs rule: scalar_one_or_none.cases) auto

lemma scalar_oneD: "scalar_one xs = Inr x \<Longrightarrow> xs = [x]"
  by (cases xs rule: scalar_one.cases) auto

section \<open>The checks and the settlement\<close>

lemma filter_singletonD:
  assumes "filter P xs = [x]"
  shows "x \<in> set xs" and "P x" and "\<And>r. r \<in> set xs \<Longrightarrow> P r \<Longrightarrow> r = x"
proof -
  have s: "set (filter P xs) = {x}" using assms by simp
  then show "x \<in> set xs" "P x" by auto
  fix r assume "r \<in> set xs" "P r"
  then have "r \<in> set (filter P xs)" by simp
  with s show "r = x" by simp
qed

lemma lock_escrow_InrD:
  assumes "lock_escrow request s = Inr (deal, escrow)"
  shows "filter (\<lambda>d. dg_id d = deal_id request) (deal_groups s) = [deal]"
    and "filter (\<lambda>e. deal_group_id e = dg_id deal) (escrow_transactions s) = [escrow]"
    and "status escrow = Some HELD"
  using assms
  by (auto simp: lock_escrow_def split: sum.splits option.splits if_splits
      dest!: scalar_one_or_none_SomeD)

lemma verify_payer_InrD:
  assumes "verify_payer checkpw request escrow s = Inr payer"
  shows "filter (\<lambda>u. Some (u_id u) = payer_id escrow) (users s) = [payer]"
  using assms
  by (auto simp: verify_payer_def split: sum.splits option.splits if_splits
      dest!: scalar_one_or_none_SomeD)

lemma u_id_credit: "u_id (credit u a) = u_id u"
  by (simp add: credit_def)

lemma full_name_credit: "full_name (credit u a) = full_name u"
  by (simp add: credit_def)

lemma producer_amount_mark_released:
  "producer_amount (mark_released now request payer escrow) = producer_amount escrow"
  by (simp add: producer_amount_def mark_released_def)

lemma driver_amount_mark_released:
  "driver_amount (mark_released now request payer escrow) = driver_amount escrow"
  by (simp add: driver_amount_def mark_released_def)

lemma settle_InrD:
  assumes "settle loop now request deal escrow0 payer s = (Inr resp, s', tasks)"
  shows "\<exists>producer0 users2 driver_row users3.
      filter (\<lambda>u. Some (u_id u) = seller_id deal) (users s) = [producer0]
    \<and> update_user (credit producer0 (producer_amount escrow0)) (users s) = Inr users2
    \<and> filter (\<lambda>u. Some (u_id u) = driver_id deal) users2 = [driver_row]
    \<and> update_user
         (credit (if u_id driver_row = u_id producer0
                  then credit producer0 (producer_amount escrow0) else driver_row)
            (driver_amount escrow0)) users2 = Inr users3
    \<and> users s' = users3
    \<and> deal_groups s' = deal_groups s
    \<and> audit_logs s' = audit_logs s
    \<and> escrow_transactions s'
        = update_escrow (mark_released now request payer escrow0) (escrow_transactions s)"
  using assms
  by (auto simp: settle_def Let_def u_id_credit producer_amount_mark_released
      driver_amount_mark_released cong: if_cong
      split: sum.splits option.splits split del: if_split dest!: scalar_one_or_none_SomeD)

text \<open>
  How the accounts change in a settlement that succeeds: the row of the seller has
  the producer's credit, the row of the driver the driver's (on top of the
  producer's when it is the seller's row too), each balance stored to the cent; every
  other row is the row before.
\<close>

lemma settle_users:
  assumes st: "settle loop now request deal escrow0 payer s = (Inr resp, s', tasks)"
  shows "users s' =
     map (\<lambda>u. if Some (u_id u) = driver_id deal
               then u\<lparr>balance := quantize_cents (balance
                      (credit (if Some (u_id u) = seller_id deal
                               then credit u (producer_amount escrow0) else u)
                         (driver_amount escrow0)))\<rparr>
               else if Some (u_id u) = seller_id deal
               then u\<lparr>balance := quantize_cents (balance (credit u (producer_amount escrow0)))\<rparr>
               else u) (users s)"
proof -
  let ?pa = "producer_amount escrow0" and ?da = "driver_amount escrow0"
  from settle_InrD [OF st] obtain producer0 users2 driver_row users3 where
    f1: "filter (\<lambda>u. Some (u_id u) = seller_id deal) (users s) = [producer0]" and
    u2: "update_user (credit producer0 ?pa) (users s) = Inr users2" and
    f2: "filter (\<lambda>u. Some (u_id u) = driver_id deal) users2 = [driver_row]" and
    u3: "update_user
         (credit (if u_id driver_row = u_id producer0 then credit producer0 ?pa else driver_row)
            ?da) users2 = Inr users3" and
    us: "users s' = users3"
    by blast
  let ?P = "(credit producer0 ?pa)\<lparr>balance := quantize_cents (balance (credit producer0 ?pa))\<rparr>"
  let ?d0 = "if u_id driver_row = u_id producer0 then credit producer0 ?pa else driver_row"
  let ?D = "(credit ?d0 ?da)\<lparr>balance := quantize_cents (balance (credit ?d0 ?da))\<rparr>"
  let ?g2 = "\<lambda>r. if u_id r = u_id producer0 then ?P else r"
  let ?g3 = "\<lambda>r. if u_id r = u_id driver_row then ?D else r"
  have e2: "users2 = map ?g2 (users s)"
    using update_user_InrD(1) [OF u2] by (simp add: u_id_credit)
  have id_d0: "u_id ?d0 = u_id driver_row"
    by (simp add: u_id_credit)
  have e3: "users3 = map ?g3 users2"
    using update_user_InrD(1) [OF u3] by (simp only: u_id_credit id_d0)
  have seller: "Some (u_id producer0) = seller_id deal"
    by (rule filter_singletonD(2) [OF f1])
  have driver: "Some (u_id driver_row) = driver_id deal"
    by (rule filter_singletonD(2) [OF f2])
  have credit_eq: "\<And>(u::user) a. (credit u a)\<lparr>balance := b\<rparr> = u\<lparr>balance := b\<rparr>" for b
    by (simp add: credit_def)
  have "?g3 (?g2 u) =
       (if Some (u_id u) = driver_id deal
               then u\<lparr>balance := quantize_cents (balance
                      (credit (if Some (u_id u) = seller_id deal
                               then credit u ?pa else u) ?da))\<rparr>
               else if Some (u_id u) = seller_id deal
               then u\<lparr>balance := quantize_cents (balance (credit u ?pa))\<rparr>
               else u)" if u: "u \<in> set (users s)" for u
  proof -
    have sd: "seller_id deal = Some (u_id producer0)" "driver_id deal = Some (u_id driver_row)"
      using seller driver by simp_all
    show ?thesis
    proof (cases "u_id u = u_id producer0")
      case True
      then have "Some (u_id u) = seller_id deal" by (simp add: sd)
      then have up: "u = producer0"
        by (rule filter_singletonD(3) [OF f1 u])
      show ?thesis
      proof (cases "u_id driver_row = u_id producer0")
        case dp: True
        show ?thesis
          by (simp add: sd up dp u_id_credit credit_eq)
      next
        case False
        then have "u_id producer0 \<noteq> u_id driver_row" by simp
        with False show ?thesis
          by (simp add: sd up u_id_credit credit_eq)
      qed
    next
      case False
      then have g2: "?g2 u = u" by simp
      have "?g2 u \<in> set (map ?g2 (users s))"
        using u by (simp only: set_map image_eqI)
      then have u2: "u \<in> set users2"
        by (simp only: g2 e2)
      show ?thesis
      proof (cases "u_id u = u_id driver_row")
        case d: True
        then have "Some (u_id u) = driver_id deal" by (simp add: sd)
        then have ud: "u = driver_row"
          by (rule filter_singletonD(3) [OF f2 u2])
        from False ud have "u_id driver_row \<noteq> u_id producer0" by simp
        then show ?thesis
          by (simp add: sd ud u_id_credit credit_eq)
      next
        case d: False
        with False show ?thesis
          by (simp add: sd)
      qed
    qed
  qed
  then have "map ?g3 (map ?g2 (users s)) = map (\<lambda>u. if Some (u_id u) = driver_id deal
               then u\<lparr>balance := quantize_cents (balance
                      (credit (if Some (u_id u) = seller_id deal
                               then credit u ?pa else u) ?da))\<rparr>
               else if Some (u_id u) = seller_id deal
               then u\<lparr>balance := quantize_cents (balance (credit u ?pa))\<rparr>
               else u) (users s)"
    unfolding map_map by (intro map_cong refl) (simp only: comp_def)
  with us e2 e3 show ?thesis by simp
qed

text \<open>The rounding in integer arithmetic, for evaluation.\<close>

lemma round_half_away_divide:
  assumes k: "0 < k"
  shows "round_half_away (of_int c / of_int k)
       = (if 0 \<le> c then (2 * c + k) div (2 * k) else - ((2 * (- c) + k) div (2 * k)))"
proof -
  have pos: "(0::rat) < of_int k" using k by simp
  have h: "(of_int a / of_int k :: rat) + 1 / 2 = of_int (2 * a + k) / of_int (2 * k)" for a
    using k by (simp add: field_simps)
  have f: "\<lfloor>(of_int a / of_int k :: rat) + 1 / 2\<rfloor> = (2 * a + k) div (2 * k)" for a
    unfolding h by (rule floor_divide_of_int_eq)
  have sgn: "0 \<le> (of_int c / of_int k :: rat) \<longleftrightarrow> 0 \<le> c"
    using pos by (simp add: zero_le_divide_iff)
  have neg: "- (of_int c / of_int k :: rat) = of_int (- c) / of_int k"
    by simp
  show ?thesis
    unfolding round_half_away_def sgn neg f by simp
qed

lemma quantize_cents_code:
  "quantize_cents d =
     \<lparr>coeff = (if places d \<le> 2 then coeff d * 10 ^ (2 - places d)
               else if 0 \<le> coeff d
               then (2 * coeff d + 10 ^ (places d - 2)) div (2 * 10 ^ (places d - 2))
               else - ((2 * (- coeff d) + 10 ^ (places d - 2)) div (2 * 10 ^ (places d - 2)))),
      places = 2\<rparr>"
proof (cases "places d \<le> 2")
  case True
  then have e: "(100::rat) = 10 ^ (2 - places d) * 10 ^ places d"
    by (simp flip: power_add)
  have "dec_val d * 100 = of_int (coeff d * 10 ^ (2 - places d))"
    unfolding dec_val_def e by simp
  then have "round_half_away (dec_val d * 100) = coeff d * 10 ^ (2 - places d)"
    by (simp only: round_half_away_of_int)
  with True show ?thesis by (simp add: quantize_cents_def)
next
  case False
  then have "places d = (places d - 2) + 2" by simp
  then have "(10::rat) ^ places d = 10 ^ (places d - 2) * 10 ^ 2"
    by (simp only: power_add [symmetric])
  then have e: "(10::rat) ^ places d = 10 ^ (places d - 2) * 100"
    by simp
  have "dec_val d * 100 = of_int (coeff d) / of_int (10 ^ (places d - 2))"
    unfolding dec_val_def e by simp
  then have "round_half_away (dec_val d * 100)
      = round_half_away (of_int (coeff d) / of_int (10 ^ (places d - 2)))"
    by simp
  also have "\<dots> = (if 0 \<le> coeff d
               then (2 * coeff d + 10 ^ (places d - 2)) div (2 * 10 ^ (places d - 2))
               else - ((2 * (- coeff d) + 10 ^ (places d - 2)) div (2 * 10 ^ (places d - 2))))"
    by (rule round_half_away_divide) simp
  finally show ?thesis using False by (simp add: quantize_cents_def)
qed

section \<open>Evaluation on the seeded deal\<close>

lemmas seed_defs = seed_db_def seed_producer_def seed_retailer_def seed_driver_def
  seed_deal_def seed_shipment_def seed_escrow_def seed_time_def demo_checkpw_def
  demo_now_def demo_request_def keyless_request_def released_db_def disputed_db_def
  keyed_db_def driverless_db_def legacy_db_def demo_later_def other_request_def
  cent_db_def null_db_def null_keyed_db_def settled_escrow_def settled_db_def

lemmas router_defs = release_escrow_def idempotency_check_def str_truthy_def
  session_begin_def release_transaction_def lock_escrow_def verify_payer_def settle_def
  mark_released_def update_escrow_def update_user_def store_numeric_12_2_def
  quantize_cents_code update_shipment_def credit_def
  producer_amount_def driver_amount_def dec_truthy_def dec_add_def dec_mul_def Decimal_def
  PRODUCER_SHARE_def DRIVER_SHARE_def cached_response_def Let_def

lemmas audit_defs = escrow_after_update_def escrow_instance_def tracked_def
  escrow_columns_def get_changes_def get_snapshot_def attribute_history_def
  has_changes_def first_or_none_def opt_val_def

lemma seed_release_succeeds:
  "\<exists>resp s' tasks.
     release_escrow demo_checkpw True demo_now keyless_request seed_db = (Inr resp, s', tasks)"
  by (simp add: seed_defs router_defs)

lemma seed_release_users:
  "users (fst (snd (release_escrow demo_checkpw True demo_now keyless_request seed_db)))
   = [seed_producer\<lparr>balance := Decimal 394200 2\<rparr>, seed_retailer,
      seed_driver\<lparr>balance := Decimal 43800 2\<rparr>]"
  by (simp add: seed_defs router_defs)


lemma keyed_fresh:
  "release_escrow demo_checkpw True demo_now demo_request seed_db
     = (Inl InvalidRequestError, seed_db, [])"
  by (simp add: seed_defs router_defs)

lemma null_release:
  "release_escrow demo_checkpw True demo_now keyless_request null_db
     = (Inl AttributeError, null_db, [])
   \<and> release_escrow demo_checkpw True demo_now demo_request null_keyed_db
     = (Inl AttributeError, null_keyed_db, [])"
  by (simp add: seed_defs router_defs)

lemma settled_is_seed_release:
  "(fst (snd (release_escrow demo_checkpw True demo_now keyless_request seed_db)))
     \<lparr>escrow_transactions :=
        map (\<lambda>e. e\<lparr>idempotency_key := Some ''release-901''\<rparr>)
          (escrow_transactions
             (fst (snd (release_escrow demo_checkpw True demo_now keyless_request seed_db))))\<rparr>
   = settled_db"
  by (simp add: seed_defs router_defs)

section \<open>Failing releases\<close>

lemma release_escrow_cases:
  assumes "release_escrow checkpw loop now request s = (r, s', tasks)"
  shows "s' = s
    \<or> (\<exists>deal escrow payer resp. r = Inr resp
        \<and> \<not> str_truthy (rq_idempotency_key request)
        \<and> lock_escrow request s = Inr (deal, escrow)
        \<and> verify_payer checkpw request escrow s = Inr payer
        \<and> settle loop now request deal escrow payer s = (Inr resp, s', tasks))"
  using assms
  by (auto simp: release_escrow_def session_begin_def release_transaction_def
      split: option.splits sum.splits prod.splits if_splits)

lemma release_escrow_InrD:
  assumes "release_escrow checkpw loop now request s = (Inr resp, s', tasks)"
  shows "(s' = s \<and> tasks = [] \<and> idempotency_check now request s = Some (Inr resp))
    \<or> (\<exists>deal escrow payer. \<not> str_truthy (rq_idempotency_key request)
        \<and> lock_escrow request s = Inr (deal, escrow)
        \<and> verify_payer checkpw request escrow s = Inr payer
        \<and> settle loop now request deal escrow payer s = (Inr resp, s', tasks))"
  using assms
  by (auto simp: release_escrow_def session_begin_def release_transaction_def
      split: option.splits sum.splits prod.splits if_splits)

text \<open>
  C3. Every failing release request, whatever the failure (deal or escrow missing,
  already released, invalid state, no PIN, wrong PIN, payer, producer or driver
  missing, or any other exception), leaves the escrows, the shipments, the accounts
  and the deals exactly as they were before the call: escrow status, shipment status
  and all balances. What the transaction wrote before it failed is rolled back.
\<close>

theorem release_failure_aborts:
  assumes "serve_release checkpw loop audit_ok now request s = (Inl exc, s')"
  shows "escrow_transactions s' = escrow_transactions s \<and> shipments s' = shipments s
       \<and> users s' = users s \<and> deal_groups s' = deal_groups s"
proof -
  obtain r s1 tasks where e: "release_escrow checkpw loop now request s = (r, s1, tasks)"
    by (cases "release_escrow checkpw loop now request s") auto
  with assms have r: "r = Inl exc"
    and s': "s' = s1\<lparr>audit_logs := run_audit_tasks audit_ok tasks (audit_logs s1)\<rparr>"
    by (simp_all add: serve_release_def)
  from release_escrow_cases [OF e] r have "s1 = s"
    by auto
  with s' show ?thesis
    by simp
qed

text \<open>
  The seeded deal before a driver is assigned: the release fails with 404 at the
  driver's lookup, after the transaction has written the escrow and the producer.
\<close>

lemma driverless_release:
  "fst (serve_release demo_checkpw True True demo_now keyless_request driverless_db)
     = Inl (HTTPException 404 DriverNotFound)"
  by (simp add: serve_release_def seed_defs router_defs split: prod.splits)

lemma driverless_settle_writes:
  "map status (escrow_transactions (fst (snd
      (release_transaction demo_checkpw True demo_now keyless_request driverless_db))))
     = [Some FUNDS_RELEASED]
   \<and> map balance (users (fst (snd
      (release_transaction demo_checkpw True demo_now keyless_request driverless_db))))
     = [Decimal 394200 2, Decimal 0 2, Decimal 0 2]"
  by (simp add: seed_defs router_defs)

theorem release_failure_aborts_witness:
  "fst (serve_release demo_checkpw True True demo_now keyless_request driverless_db)
     = Inl (HTTPException 404 DriverNotFound)
   \<and> escrow_transactions
       (snd (serve_release demo_checkpw True True demo_now keyless_request driverless_db))
     = escrow_transactions driverless_db
   \<and> shipments
       (snd (serve_release demo_checkpw True True demo_now keyless_request driverless_db))
     = shipments driverless_db
   \<and> users (snd (serve_release demo_checkpw True True demo_now keyless_request driverless_db))
     = users driverless_db"
proof -
  have "serve_release demo_checkpw True True demo_now keyless_request driverless_db
      = (Inl (HTTPException 404 DriverNotFound),
         snd (serve_release demo_checkpw True True demo_now keyless_request driverless_db))"
    using driverless_release
    by (metis prod.collapse)
  from release_failure_aborts [OF this] driverless_release show ?thesis
    by simp
qed

section \<open>Successful releases\<close>

lemma list_all2_map_self:
  assumes "\<And>x. x \<in> set xs \<Longrightarrow> R x (f x)"
  shows "list_all2 R xs (map f xs)"
  using assms by (induction xs) simp_all

lemma update_escrow_rel:
  assumes "\<And>r. r \<in> set xs \<Longrightarrow> e_id r = e_id e \<Longrightarrow> R r e" and "\<And>r. R r r"
  shows "list_all2 R xs (update_escrow e xs)"
  using assms by (induction xs) (auto simp: update_escrow_def)

text \<open>A relation that holds between every account before and after a settlement.\<close>

lemma settle_users_rel:
  assumes st: "settle loop now request deal escrow0 payer s = (Inr resp, s', tasks)"
    and p: "\<And>u. u \<in> set (users s) \<Longrightarrow> Some (u_id u) = seller_id deal
        \<Longrightarrow> Some (u_id u) \<noteq> driver_id deal
        \<Longrightarrow> R u (u\<lparr>balance := quantize_cents (balance (credit u (producer_amount escrow0)))\<rparr>)"
    and d: "\<And>u. u \<in> set (users s) \<Longrightarrow> Some (u_id u) = driver_id deal
        \<Longrightarrow> Some (u_id u) \<noteq> seller_id deal
        \<Longrightarrow> R u (u\<lparr>balance := quantize_cents (balance (credit u (driver_amount escrow0)))\<rparr>)"
    and b: "\<And>u. u \<in> set (users s) \<Longrightarrow> Some (u_id u) = seller_id deal
        \<Longrightarrow> Some (u_id u) = driver_id deal
        \<Longrightarrow> R u (u\<lparr>balance := quantize_cents (balance
              (credit (credit u (producer_amount escrow0)) (driver_amount escrow0)))\<rparr>)"
    and refl: "\<And>u. u \<in> set (users s) \<Longrightarrow> Some (u_id u) \<noteq> seller_id deal
        \<Longrightarrow> Some (u_id u) \<noteq> driver_id deal \<Longrightarrow> R u u"
  shows "list_all2 R (users s) (users s')"
  unfolding settle_users [OF st]
proof (rule list_all2_map_self)
  fix u assume u: "u \<in> set (users s)"
  show "R u (if Some (u_id u) = driver_id deal
               then u\<lparr>balance := quantize_cents (balance
                      (credit (if Some (u_id u) = seller_id deal
                               then credit u (producer_amount escrow0) else u)
                         (driver_amount escrow0)))\<rparr>
               else if Some (u_id u) = seller_id deal
               then u\<lparr>balance := quantize_cents (balance (credit u (producer_amount escrow0)))\<rparr>
               else u)"
  proof (cases "Some (u_id u) = driver_id deal")
    case True
    show ?thesis
    proof (cases "Some (u_id u) = seller_id deal")
      case s: True
      from b [OF u s True] True s show ?thesis by simp
    next
      case s: False
      from d [OF u True s] True s show ?thesis by simp
    qed
  next
    case False
    show ?thesis
    proof (cases "Some (u_id u) = seller_id deal")
      case s: True
      from p [OF u s False] False s show ?thesis by simp
    next
      case s: False
      from refl [OF u s False] False s show ?thesis by simp
    qed
  qed
qed

lemma dec_val_nonneg_amounts:
  assumes "0 \<le> dec_val (amount escrow)"
  shows "0 \<le> dec_val (producer_amount escrow)" and "0 \<le> dec_val (driver_amount escrow)"
  using assms by (simp_all add: dec_val_producer_amount dec_val_driver_amount)

lemma stored_not_less:
  assumes "places b = 2" and "dec_val b \<le> dec_val c"
  shows "dec_val b \<le> dec_val (quantize_cents c)"
proof -
  have "dec_val b = dec_val (quantize_cents b)"
    using assms(1) by (simp add: quantize_cents_two_places)
  also have "\<dots> \<le> dec_val (quantize_cents c)"
    using assms(2) by (rule quantize_cents_mono)
  finally show ?thesis .
qed

text \<open>
  C9. In a successful release whose escrow amount is not negative, both credits are
  non-negative amounts, every account keeps its identity and no stored balance
  decreases: the balance of every account after the call is at least its balance
  before, so a non-negative balance stays non-negative. The balances before the call
  are values of their column, with two decimal places.
\<close>

theorem balances_never_decrease:
  assumes ok: "release_escrow checkpw loop now request s = (Inr resp, s', tasks)"
    and amt: "\<forall>e \<in> set (escrow_transactions s).
        deal_group_id e = deal_id request \<longrightarrow> 0 \<le> dec_val (amount e)"
    and col: "\<forall>u \<in> set (users s). numeric_12_2 (balance u)"
  shows "list_all2 (\<lambda>u u'. u_id u' = u_id u \<and> dec_val (balance u) \<le> dec_val (balance u'))
           (users s) (users s')
       \<and> (\<forall>e \<in> set (escrow_transactions s). deal_group_id e = deal_id request
            \<longrightarrow> 0 \<le> dec_val (producer_amount e) \<and> 0 \<le> dec_val (driver_amount e))"
proof
  let ?R = "\<lambda>u u'. u_id u' = u_id u \<and> dec_val (balance u) \<le> dec_val (balance u')"
  from release_escrow_InrD [OF ok] show "list_all2 ?R (users s) (users s')"
  proof (elim disjE exE conjE)
    assume "s' = s"
    then show ?thesis by (simp add: list_all2_same)
  next
    fix deal escrow payer
    assume lk: "lock_escrow request s = Inr (deal, escrow)"
      and st: "settle loop now request deal escrow payer s = (Inr resp, s', tasks)"
    from lock_escrow_InrD(1) [OF lk] have dg: "dg_id deal = deal_id request"
      by (rule filter_singletonD(2))
    from lock_escrow_InrD(2) [OF lk]
    have "escrow \<in> set (escrow_transactions s)" "deal_group_id escrow = dg_id deal"
      by (rule filter_singletonD(1), rule filter_singletonD(2))
    with amt dg have "0 \<le> dec_val (amount escrow)" by simp
    note nn = dec_val_nonneg_amounts [OF this]
    have two: "places (balance u) = 2" if "u \<in> set (users s)" for u
      using col that by (simp add: numeric_12_2_def)
    show ?thesis
    proof (rule settle_users_rel [OF st])
      fix u assume u: "u \<in> set (users s)"
      have "dec_val (balance u) \<le> dec_val (balance (credit u (producer_amount escrow)))"
        using nn(1) by (simp add: dec_val_credit)
      from stored_not_less [OF two [OF u] this]
      show "?R u (u\<lparr>balance := quantize_cents (balance (credit u (producer_amount escrow)))\<rparr>)"
        by simp
      have "dec_val (balance u) \<le> dec_val (balance (credit u (driver_amount escrow)))"
        using nn(2) by (simp add: dec_val_credit)
      from stored_not_less [OF two [OF u] this]
      show "?R u (u\<lparr>balance := quantize_cents (balance (credit u (driver_amount escrow)))\<rparr>)"
        by simp
      have "dec_val (balance u)
          \<le> dec_val (balance (credit (credit u (producer_amount escrow)) (driver_amount escrow)))"
        using nn by (simp add: dec_val_credit)
      from stored_not_less [OF two [OF u] this]
      show "?R u (u\<lparr>balance := quantize_cents (balance
              (credit (credit u (producer_amount escrow)) (driver_amount escrow)))\<rparr>)"
        by simp
    qed simp
  qed
next
  show "\<forall>e \<in> set (escrow_transactions s). deal_group_id e = deal_id request
            \<longrightarrow> 0 \<le> dec_val (producer_amount e) \<and> 0 \<le> dec_val (driver_amount e)"
    using amt by (auto simp: dec_val_producer_amount dec_val_driver_amount)
qed

lemma seed_release_balances:
  "map (\<lambda>u. dec_val (balance u))
     (users (fst (snd (release_escrow demo_checkpw True demo_now keyless_request seed_db))))
   = [3942, 0, 438]"
  unfolding seed_release_users by (simp add: seed_defs dec_val_def Decimal_def)

theorem balances_never_decrease_witness:
  "list_all2 (\<lambda>u u'. u_id u' = u_id u \<and> dec_val (balance u) \<le> dec_val (balance u'))
     (users seed_db)
     (users (fst (snd (release_escrow demo_checkpw True demo_now keyless_request seed_db))))
   \<and> map (\<lambda>u. dec_val (balance u)) (users seed_db) = [0, 0, 0]
   \<and> map (\<lambda>u. dec_val (balance u))
       (users (fst (snd (release_escrow demo_checkpw True demo_now keyless_request seed_db))))
     = [3942, 0, 438]"
proof -
  obtain resp s' tasks where
    e: "release_escrow demo_checkpw True demo_now keyless_request seed_db = (Inr resp, s', tasks)"
    using seed_release_succeeds by blast
  have h: "\<forall>e \<in> set (escrow_transactions seed_db).
      deal_group_id e = deal_id keyless_request \<longrightarrow> 0 \<le> dec_val (amount e)"
    by (simp add: seed_defs dec_val_def Decimal_def)
  have c: "\<forall>u \<in> set (users seed_db). numeric_12_2 (balance u)"
    by (simp add: seed_defs numeric_12_2_def Decimal_def)
  have b: "map (\<lambda>u. dec_val (balance u)) (users seed_db) = [0, 0, 0]"
    by (simp add: seed_defs dec_val_def Decimal_def)
  from balances_never_decrease [OF e h c] e seed_release_balances b show ?thesis
    by simp
qed

lemma filter_kept:
  assumes "list_all2 K xs ys"
    and "\<And>u u'. K u u' \<Longrightarrow> (P u \<longleftrightarrow> P u') \<and> (P u \<longrightarrow> u' = u)"
  shows "filter P ys = filter P xs"
  using assms(1)
proof (induction rule: list_all2_induct)
  case Nil
  show ?case by simp
next
  case (Cons x xs y ys)
  from assms(2) [OF Cons.hyps(1)] have a: "P x \<longleftrightarrow> P y" and b: "P x \<Longrightarrow> y = x"
    by blast+
  show ?case
  proof (cases "P x")
    case True
    with a b Cons.IH show ?thesis by simp
  next
    case False
    with a Cons.IH show ?thesis by simp
  qed
qed

text \<open>
  C10. In a successful release for a deal whose escrow's payer is neither the deal's
  seller nor its driver, the payer's account row after the call is the row before it
  (so its stored balance is unchanged), and the only account rows written are those
  of the seller and the driver: every other row is unchanged.
\<close>

theorem payer_balance_unchanged:
  assumes ok: "release_escrow checkpw loop now request s = (Inr resp, s', tasks)"
    and deal: "deal \<in> set (deal_groups s)" "dg_id deal = deal_id request"
    and escrow: "escrow \<in> set (escrow_transactions s)" "deal_group_id escrow = dg_id deal"
    and distinct: "payer_id escrow \<noteq> seller_id deal" "payer_id escrow \<noteq> driver_id deal"
  shows "filter (\<lambda>u. Some (u_id u) = payer_id escrow) (users s')
           = filter (\<lambda>u. Some (u_id u) = payer_id escrow) (users s)
       \<and> list_all2 (\<lambda>u u'. u_id u' = u_id u
            \<and> (Some (u_id u) \<noteq> seller_id deal \<and> Some (u_id u) \<noteq> driver_id deal \<longrightarrow> u' = u))
           (users s) (users s')"
proof -
  let ?K = "\<lambda>(u::user) (u'::user). u_id u' = u_id u
            \<and> (Some (u_id u) \<noteq> seller_id deal \<and> Some (u_id u) \<noteq> driver_id deal \<longrightarrow> u' = u)"
  from release_escrow_InrD [OF ok] have k: "list_all2 ?K (users s) (users s')"
  proof (elim disjE exE conjE)
    assume "s' = s"
    then show ?thesis by (simp add: list_all2_same)
  next
    fix deal' escrow' payer
    assume lk: "lock_escrow request s = Inr (deal', escrow')"
      and st: "settle loop now request deal' escrow' payer s = (Inr resp, s', tasks)"
    have "deal = deal'"
      by (rule filter_singletonD(3) [OF lock_escrow_InrD(1) [OF lk] deal])
    with st have st': "settle loop now request deal escrow' payer s = (Inr resp, s', tasks)"
      by simp
    show ?thesis
      by (rule settle_users_rel [OF st']) simp_all
  qed
  have "filter (\<lambda>u. Some (u_id u) = payer_id escrow) (users s')
           = filter (\<lambda>u. Some (u_id u) = payer_id escrow) (users s)"
    using k
  proof (rule filter_kept)
    fix u u' :: user assume "?K u u'"
    then have "u_id u' = u_id u"
      and "Some (u_id u) \<noteq> seller_id deal \<and> Some (u_id u) \<noteq> driver_id deal \<Longrightarrow> u' = u"
      by blast+
    with distinct
    show "(Some (u_id u) = payer_id escrow \<longleftrightarrow> Some (u_id u') = payer_id escrow)
        \<and> (Some (u_id u) = payer_id escrow \<longrightarrow> u' = u)"
      by metis
  qed
  with k show ?thesis by simp
qed

theorem payer_balance_unchanged_witness:
  "filter (\<lambda>u. Some (u_id u) = payer_id seed_escrow)
     (users (fst (snd (release_escrow demo_checkpw True demo_now keyless_request seed_db))))
   = [seed_retailer]
   \<and> payer_id seed_escrow \<noteq> seller_id seed_deal
   \<and> payer_id seed_escrow \<noteq> driver_id seed_deal"
proof -
  obtain resp s' tasks where
    e: "release_escrow demo_checkpw True demo_now keyless_request seed_db = (Inr resp, s', tasks)"
    using seed_release_succeeds by blast
  have h: "seed_deal \<in> set (deal_groups seed_db)" "dg_id seed_deal = deal_id keyless_request"
    "seed_escrow \<in> set (escrow_transactions seed_db)"
    "deal_group_id seed_escrow = dg_id seed_deal"
    "payer_id seed_escrow \<noteq> seller_id seed_deal"
    "payer_id seed_escrow \<noteq> driver_id seed_deal"
    by (simp_all add: seed_defs)
  have f: "filter (\<lambda>u. Some (u_id u) = payer_id seed_escrow) (users seed_db) = [seed_retailer]"
    by (simp add: seed_defs)
  from payer_balance_unchanged [OF e h] e f h(5,6) show ?thesis
    by simp
qed

section \<open>Conflicts\<close>

lemma release_escrow_lock_fails:
  "\<not> str_truthy (rq_idempotency_key request) \<Longrightarrow> lock_escrow request s = Inl exc
   \<Longrightarrow> release_escrow checkpw loop now request s = (Inl exc, s, [])"
  by (simp add: release_escrow_def idempotency_check_def release_transaction_def
      session_begin_def)

text \<open>
  What holds of the conflicts for a status that is a member of the enum. In the
  transaction, which a request without a key reaches, with the deal found and its
  escrow row locked and read: a status \<^verbatim>\<open>FUNDS_RELEASED\<close> fails with 409 and a status
  that is another member but \<^verbatim>\<open>HELD\<close> fails with 400. In the check before the
  transaction, a non-empty key recorded on an escrow whose status is a member other
  than \<^verbatim>\<open>FUNDS_RELEASED\<close> fails with 409. Each time the database after the call is
  the database before it and no audit task is created.
\<close>

lemma release_conflicts:
  "(\<not> str_truthy (rq_idempotency_key request)
      \<and> scalar_one_or_none (filter (\<lambda>d. dg_id d = deal_id request) (deal_groups s))
          = Inr (Some deal)
      \<and> scalar_one_or_none (filter (\<lambda>e. deal_group_id e = dg_id deal) (escrow_transactions s))
          = Inr (Some escrow)
      \<and> status escrow = Some FUNDS_RELEASED
    \<longrightarrow> release_escrow checkpw loop now request s
          = (Inl (HTTPException 409 AlreadyReleased), s, []))
   \<and> (\<not> str_truthy (rq_idempotency_key request)
      \<and> scalar_one_or_none (filter (\<lambda>d. dg_id d = deal_id request) (deal_groups s))
          = Inr (Some deal)
      \<and> scalar_one_or_none (filter (\<lambda>e. deal_group_id e = dg_id deal) (escrow_transactions s))
          = Inr (Some escrow)
      \<and> status escrow = Some st \<and> st \<noteq> HELD \<and> st \<noteq> FUNDS_RELEASED
    \<longrightarrow> release_escrow checkpw loop now request s
          = (Inl (HTTPException 400 (NotHeld (escrow_status_value st))), s, []))
   \<and> (rq_idempotency_key request = Some key \<and> key \<noteq> []
      \<and> scalar_one_or_none (filter (\<lambda>e. idempotency_key e = Some key) (escrow_transactions s))
          = Inr (Some existing)
      \<and> status existing = Some st' \<and> st' \<noteq> FUNDS_RELEASED
    \<longrightarrow> release_escrow checkpw loop now request s
          = (Inl (HTTPException 409 (KeyNotReleased (escrow_status_value st'))), s, []))"
proof (intro conjI impI)
  assume a: "\<not> str_truthy (rq_idempotency_key request)
      \<and> scalar_one_or_none (filter (\<lambda>d. dg_id d = deal_id request) (deal_groups s))
          = Inr (Some deal)
      \<and> scalar_one_or_none (filter (\<lambda>e. deal_group_id e = dg_id deal) (escrow_transactions s))
          = Inr (Some escrow)
      \<and> status escrow = Some FUNDS_RELEASED"
  then have "lock_escrow request s = Inl (HTTPException 409 AlreadyReleased)"
    by (simp add: lock_escrow_def)
  with a show "release_escrow checkpw loop now request s
          = (Inl (HTTPException 409 AlreadyReleased), s, [])"
    by (simp add: release_escrow_lock_fails)
next
  assume a: "\<not> str_truthy (rq_idempotency_key request)
      \<and> scalar_one_or_none (filter (\<lambda>d. dg_id d = deal_id request) (deal_groups s))
          = Inr (Some deal)
      \<and> scalar_one_or_none (filter (\<lambda>e. deal_group_id e = dg_id deal) (escrow_transactions s))
          = Inr (Some escrow)
      \<and> status escrow = Some st \<and> st \<noteq> HELD \<and> st \<noteq> FUNDS_RELEASED"
  then have "lock_escrow request s = Inl (HTTPException 400 (NotHeld (escrow_status_value st)))"
    by (simp add: lock_escrow_def)
  with a show "release_escrow checkpw loop now request s
          = (Inl (HTTPException 400 (NotHeld (escrow_status_value st))), s, [])"
    by (simp add: release_escrow_lock_fails)
next
  assume a: "rq_idempotency_key request = Some key \<and> key \<noteq> []
      \<and> scalar_one_or_none (filter (\<lambda>e. idempotency_key e = Some key) (escrow_transactions s))
          = Inr (Some existing)
      \<and> status existing = Some st' \<and> st' \<noteq> FUNDS_RELEASED"
  then have "idempotency_check now request s
      = Some (Inl (HTTPException 409 (KeyNotReleased (escrow_status_value st'))))"
    by (simp add: idempotency_check_def str_truthy_def)
  then show "release_escrow checkpw loop now request s
          = (Inl (HTTPException 409 (KeyNotReleased (escrow_status_value st'))), s, [])"
    by (simp add: release_escrow_def)
qed

lemma release_conflicts_on_seed:
  "release_escrow demo_checkpw True demo_now keyless_request released_db
     = (Inl (HTTPException 409 AlreadyReleased), released_db, [])
   \<and> release_escrow demo_checkpw True demo_now keyless_request disputed_db
     = (Inl (HTTPException 400 (NotHeld ''disputed'')), disputed_db, [])
   \<and> release_escrow demo_checkpw True demo_now demo_request keyed_db
     = (Inl (HTTPException 409 (KeyNotReleased ''held'')), keyed_db, [])"
  by (simp add: seed_defs router_defs)


section \<open>The status of an escrow\<close>

lemma distinct_map_eqD:
  "distinct (map f xs) \<Longrightarrow> x \<in> set xs \<Longrightarrow> y \<in> set xs \<Longrightarrow> f x = f y \<Longrightarrow> x = y"
  by (auto simp: distinct_map dest: inj_onD)

text \<open>
  C8 (as amended). The status of an escrow, when set, is one of the five members
  \<^verbatim>\<open>HELD\<close>, \<^verbatim>\<open>RELEASED\<close>, \<^verbatim>\<open>FUNDS_RELEASED\<close>, \<^verbatim>\<open>REFUNDED\<close>, \<^verbatim>\<open>DISPUTED\<close> of the
  enum. With primary keys distinct, a release call leaves every escrow row as it
  was, except that one row may go from \<^verbatim>\<open>HELD\<close> to \<^verbatim>\<open>FUNDS_RELEASED\<close>: that is the only
  transition, and a row that is \<^verbatim>\<open>FUNDS_RELEASED\<close> is never written again.
\<close>

theorem escrow_status_transitions:
  assumes run: "release_escrow checkpw loop now request s = (r, s', tasks)"
    and pk: "distinct (map e_id (escrow_transactions s))"
  shows "list_all2 (\<lambda>e e'. e' = e
            \<or> (status e = Some HELD \<and> status e' = Some FUNDS_RELEASED \<and> e_id e' = e_id e))
           (escrow_transactions s) (escrow_transactions s')
       \<and> (\<forall>st :: EscrowStatus. st \<in> {HELD, RELEASED, FUNDS_RELEASED, REFUNDED, DISPUTED})"
proof
  let ?T = "\<lambda>(e::escrow_transaction) (e'::escrow_transaction). e' = e
            \<or> (status e = Some HELD \<and> status e' = Some FUNDS_RELEASED \<and> e_id e' = e_id e)"
  from release_escrow_cases [OF run]
  show "list_all2 ?T (escrow_transactions s) (escrow_transactions s')"
  proof (elim disjE exE conjE)
    assume "s' = s"
    then show ?thesis by (simp add: list_all2_same)
  next
    fix deal escrow payer resp
    assume lk: "lock_escrow request s = Inr (deal, escrow)"
      and st: "settle loop now request deal escrow payer s = (Inr resp, s', tasks)"
    from settle_InrD [OF st] have es: "escrow_transactions s'
        = update_escrow (mark_released now request payer escrow) (escrow_transactions s)"
      by blast
    have mem: "escrow \<in> set (escrow_transactions s)"
      using lock_escrow_InrD(2) [OF lk] by (rule filter_singletonD(1))
    have held: "status escrow = Some HELD"
      using lk by (rule lock_escrow_InrD(3))
    have "list_all2 ?T (escrow_transactions s)
        (update_escrow (mark_released now request payer escrow) (escrow_transactions s))"
    proof (rule update_escrow_rel)
      fix r :: escrow_transaction assume r: "r \<in> set (escrow_transactions s)"
        "e_id r = e_id (mark_released now request payer escrow)"
      from r(2) have "e_id r = e_id escrow"
        by (simp add: mark_released_def)
      with pk r(1) mem have "r = escrow"
        by (rule distinct_map_eqD)
      moreover have "status (mark_released now request payer escrow) = Some FUNDS_RELEASED"
        "e_id (mark_released now request payer escrow) = e_id escrow"
        by (simp_all add: mark_released_def)
      ultimately show "?T r (mark_released now request payer escrow)"
        using held by blast
    qed simp
    with es show ?thesis by simp
  qed
next
  show "\<forall>st :: EscrowStatus. st \<in> {HELD, RELEASED, FUNDS_RELEASED, REFUNDED, DISPUTED}"
  proof
    fix st :: EscrowStatus
    show "st \<in> {HELD, RELEASED, FUNDS_RELEASED, REFUNDED, DISPUTED}"
      by (cases st) simp_all
  qed
qed

lemma seed_release_statuses:
  "map status
     (escrow_transactions
        (fst (snd (release_escrow demo_checkpw True demo_now keyless_request seed_db))))
   = [Some FUNDS_RELEASED]"
  by (simp add: seed_defs router_defs)

theorem escrow_status_transitions_witness:
  "distinct (map e_id (escrow_transactions seed_db))
   \<and> map status (escrow_transactions seed_db) = [Some HELD]
   \<and> map status
       (escrow_transactions
          (fst (snd (release_escrow demo_checkpw True demo_now keyless_request seed_db))))
     = [Some FUNDS_RELEASED]
   \<and> list_all2 (\<lambda>e e'. e' = e
          \<or> (status e = Some HELD \<and> status e' = Some FUNDS_RELEASED \<and> e_id e' = e_id e))
       (escrow_transactions seed_db)
       (escrow_transactions
          (fst (snd (release_escrow demo_checkpw True demo_now keyless_request seed_db))))"
proof -
  have e: "release_escrow demo_checkpw True demo_now keyless_request seed_db
      = (fst (release_escrow demo_checkpw True demo_now keyless_request seed_db),
         fst (snd (release_escrow demo_checkpw True demo_now keyless_request seed_db)),
         snd (snd (release_escrow demo_checkpw True demo_now keyless_request seed_db)))"
    by simp
  have pk: "distinct (map e_id (escrow_transactions seed_db))"
    and st: "map status (escrow_transactions seed_db) = [Some HELD]"
    by (simp_all add: seed_defs)
  from escrow_status_transitions [OF e pk] pk st seed_release_statuses show ?thesis
    by simp
qed

text \<open>
  The claim as stated names four statuses. The enum has a fifth, \<^verbatim>\<open>RELEASED\<close>: a row
  that holds it is read by the release, which refuses it with its \<^verbatim>\<open>.value\<close> in the
  message.
\<close>

theorem four_statuses_counterexample:
  "RELEASED \<notin> {HELD, FUNDS_RELEASED, REFUNDED, DISPUTED}
   \<and> map status (escrow_transactions legacy_db) = [Some RELEASED]
   \<and> release_escrow demo_checkpw True demo_now keyless_request legacy_db
     = (Inl (HTTPException 400 (NotHeld ''released'')), legacy_db, [])"
  by (simp add: seed_defs router_defs)

section \<open>The audit write and the business transaction\<close>

lemma release_escrow_audit_logs:
  "audit_logs (fst (snd (release_escrow checkpw loop now request s))) = audit_logs s"
proof -
  obtain r s' tasks where e: "release_escrow checkpw loop now request s = (r, s', tasks)"
    by (cases "release_escrow checkpw loop now request s") auto
  from release_escrow_cases [OF e] have "audit_logs s' = audit_logs s"
    by (auto dest: settle_InrD)
  with e show ?thesis by simp
qed

lemma settle_tasks:
  "snd (snd (settle loop now request deal escrow payer s))
   = escrow_after_update loop (escrow_instance escrow (mark_released now request payer escrow))"
  by (simp add: settle_def Let_def split: sum.splits option.splits)

text \<open>
  C6 (as amended). Writing an audit entry never raises and a failed write leaves the
  audit log as it was; the result of a request and its business tables are those of
  \<^verbatim>\<open>release_escrow\<close> whether the audit write succeeds or fails. The write is not
  tied to the commit: the task is created when the changed escrow is flushed inside
  the transaction, in every outcome of the settlement, and a rollback of the
  transaction leaves the task on the event loop.
\<close>

theorem audit_failure_is_swallowed:
  "fst (write_audit_log ok task logs) = Inr ()
   \<and> snd (write_audit_log False task logs) = logs
   \<and> fst (serve_release checkpw loop audit_ok now request s)
     = fst (release_escrow checkpw loop now request s)
   \<and> (snd (serve_release checkpw loop audit_ok now request s))\<lparr>audit_logs := audit_logs s\<rparr>
     = fst (snd (release_escrow checkpw loop now request s))
   \<and> snd (snd (session_begin s block)) = snd (snd block)
   \<and> snd (snd (settle loop now request deal escrow payer s))
     = escrow_after_update loop (escrow_instance escrow (mark_released now request payer escrow))"
proof (intro conjI)
  show "fst (write_audit_log ok task logs) = Inr ()"
    by (simp add: write_audit_log_def split: sum.splits)
  show "snd (write_audit_log False task logs) = logs"
    by (simp add: write_audit_log_def add_audit_log_def)
  show "fst (serve_release checkpw loop audit_ok now request s)
     = fst (release_escrow checkpw loop now request s)"
    by (simp add: serve_release_def split: prod.splits)
  show "(snd (serve_release checkpw loop audit_ok now request s))\<lparr>audit_logs := audit_logs s\<rparr>
     = fst (snd (release_escrow checkpw loop now request s))"
    using release_escrow_audit_logs [of checkpw loop now request s]
    by (auto simp: serve_release_def split: prod.splits)
  show "snd (snd (session_begin s block)) = snd (snd block)"
    by (simp add: session_begin_def split: prod.splits sum.splits)
  show "snd (snd (settle loop now request deal escrow payer s))
     = escrow_after_update loop (escrow_instance escrow (mark_released now request payer escrow))"
    by (rule settle_tasks)
qed

text \<open>
  The claim as stated has the audit append happen only after the business
  transaction committed. For the seeded deal without a driver the release fails with
  404 and rolls back (escrow and balances as before), and the audit log has gained the
  entry of an update of the escrow from \<^verbatim>\<open>held\<close> to \<^verbatim>\<open>funds_released\<close> that was never
  committed.
\<close>

theorem audit_without_commit_counterexample:
  "fst (serve_release demo_checkpw True True demo_now keyless_request driverless_db)
     = Inl (HTTPException 404 DriverNotFound)
   \<and> escrow_transactions (snd (serve_release demo_checkpw True True demo_now keyless_request driverless_db))
     = escrow_transactions driverless_db
   \<and> users (snd (serve_release demo_checkpw True True demo_now keyless_request driverless_db))
     = users driverless_db
   \<and> audit_logs driverless_db = []
   \<and> map (\<lambda>l. (al_action l, al_table_name l, take 1 (al_changes l)))
       (audit_logs (snd (serve_release demo_checkpw True True demo_now keyless_request driverless_db)))
     = [(''UPDATE'', ''escrow_transactions'',
         [(''status'', JString ''held'', JString ''funds_released'')])]"
  by (simp add: serve_release_def seed_defs router_defs audit_defs write_audit_log_def
      add_audit_log_def)

section \<open>The split and the stored balances\<close>




lemma settle_amounts:
  assumes "settle loop now request deal escrow0 payer s = (Inr resp, s', tasks)"
  shows "r_amount resp = float_of_decimal (amount escrow0)
    \<and> bc_amount (producer_credit resp) = float_of_decimal (producer_amount escrow0)
    \<and> bc_amount (driver_credit resp) = float_of_decimal (driver_amount escrow0)"
  using assms
  by (auto simp: settle_def Let_def producer_amount_def driver_amount_def mark_released_def
      split: sum.splits option.splits)





section \<open>How money is represented\<close>

lemma idempotency_check_InrD:
  assumes "idempotency_check now request s = Some (Inr resp)"
  shows "\<exists>existing deal. existing \<in> set (escrow_transactions s)
      \<and> cached_response now request existing deal = Inr resp"
proof -
  from assms obtain existing deal where
    f: "filter (\<lambda>e. idempotency_key e = rq_idempotency_key request) (escrow_transactions s)
        = [existing]"
    and c: "cached_response now request existing deal = Inr resp"
    by (auto simp: idempotency_check_def split: sum.splits option.splits if_splits
        dest!: scalar_one_or_none_SomeD)
  from filter_singletonD(1) [OF f] c show ?thesis by blast
qed

lemma cached_response_amounts:
  assumes "cached_response now request e deal = Inr resp"
  shows "r_amount resp = float_of_decimal (amount e)
    \<and> bc_amount (producer_credit resp) = float_of_decimal (producer_amount e)
    \<and> bc_amount (driver_credit resp) = float_of_decimal (driver_amount e)"
  using assms
  by (auto simp: cached_response_def producer_amount_def driver_amount_def
      split: option.splits)

lemma update_escrow_mem:
  "e \<in> set xs \<Longrightarrow> e_id e' = e_id e \<Longrightarrow> e' \<in> set (update_escrow e' xs)"
  by (induction xs) (auto simp: update_escrow_def)

lemma settle_written_balances:
  assumes st: "settle loop now request deal escrow0 payer s = (Inr resp, s', tasks)"
  shows "list_all2 (\<lambda>u u'. u' = u \<or> numeric_12_2 (balance u')) (users s) (users s')"
proof -
  let ?R = "\<lambda>(u::user) (u'::user). u' = u \<or> numeric_12_2 (balance u')"
  from settle_InrD [OF st] obtain producer0 users2 driver_row users3 where
    u2: "update_user (credit producer0 (producer_amount escrow0)) (users s) = Inr users2" and
    u3: "update_user
         (credit (if u_id driver_row = u_id producer0
                  then credit producer0 (producer_amount escrow0) else driver_row)
            (driver_amount escrow0)) users2 = Inr users3" and
    us: "users s' = users3"
    by blast
  have w: "list_all2 ?R rows rows'" if "update_user u rows = Inr rows'" for u rows rows'
    unfolding update_user_InrD(1) [OF that]
    using update_user_InrD(2) [OF that] by (intro list_all2_map_self) simp
  have "list_all2 ?R (users s) users3"
  proof (rule list_all2_trans [OF _ w [OF u2] w [OF u3]])
    fix a b c :: user
    assume "b = a \<or> numeric_12_2 (balance b)" "c = b \<or> numeric_12_2 (balance c)"
    then show "c = a \<or> numeric_12_2 (balance c)" by auto
  qed
  with us show ?thesis by simp
qed

text \<open>
  C7 (as amended). Balances are computed in decimal arithmetic: a credit is the exact
  decimal sum of the balance and the share, and every balance a successful release
  writes is stored as a value of its \<^verbatim>\<open>Numeric(12, 2)\<close> column. The response of every
  successful release carries the escrow amount and both shares converted by
  \<^verbatim>\<open>float()\<close> to binary floating point, and the audit serialization converts every
  decimal the same way.
\<close>

theorem money_representation:
  assumes ok: "release_escrow checkpw loop now request s = (Inr resp, s', tasks)"
  shows "(\<exists>e \<in> set (escrow_transactions s').
            r_amount resp = float_of_decimal (amount e)
          \<and> bc_amount (producer_credit resp) = float_of_decimal (dec_mul (amount e) PRODUCER_SHARE)
          \<and> bc_amount (driver_credit resp) = float_of_decimal (dec_mul (amount e) DRIVER_SHARE))
       \<and> serialize_value (PDecimal d) = JFloat (float_of_decimal d)
       \<and> balance (credit account a)
           = dec_add (if dec_truthy (balance account) then balance account else Decimal 0 0) a
       \<and> dec_val (balance (credit account a)) = dec_val (balance account) + dec_val a
       \<and> list_all2 (\<lambda>u u'. u' = u \<or> numeric_12_2 (balance u')) (users s) (users s')"
proof (intro conjI)
  from release_escrow_InrD [OF ok]
  show "\<exists>e \<in> set (escrow_transactions s').
            r_amount resp = float_of_decimal (amount e)
          \<and> bc_amount (producer_credit resp) = float_of_decimal (dec_mul (amount e) PRODUCER_SHARE)
          \<and> bc_amount (driver_credit resp) = float_of_decimal (dec_mul (amount e) DRIVER_SHARE)"
  proof (elim disjE exE conjE)
    assume same: "s' = s" and "idempotency_check now request s = Some (Inr resp)"
    from idempotency_check_InrD [OF this(2)] obtain existing deal where
      "existing \<in> set (escrow_transactions s)"
      "cached_response now request existing deal = Inr resp"
      by blast
    then have m: "existing \<in> set (escrow_transactions s')"
      and c: "cached_response now request existing deal = Inr resp"
      using same by simp_all
    show ?thesis
      using cached_response_amounts [OF c]
      by (intro bexI [OF _ m]) (simp add: producer_amount_def driver_amount_def)
  next
    fix deal escrow payer
    assume lk: "lock_escrow request s = Inr (deal, escrow)"
      and st: "settle loop now request deal escrow payer s = (Inr resp, s', tasks)"
    let ?e = "mark_released now request payer escrow"
    have "escrow \<in> set (escrow_transactions s)"
      using lock_escrow_InrD(2) [OF lk] by (rule filter_singletonD(1))
    then have "?e \<in> set (update_escrow ?e (escrow_transactions s))"
      by (rule update_escrow_mem) (simp add: mark_released_def)
    moreover from settle_InrD [OF st] have "escrow_transactions s'
        = update_escrow ?e (escrow_transactions s)"
      by blast
    ultimately have m: "?e \<in> set (escrow_transactions s')"
      by simp
    have amt: "amount ?e = amount escrow"
      by (simp add: mark_released_def)
    show ?thesis
      using settle_amounts [OF st]
      by (intro bexI [OF _ m]) (simp add: amt producer_amount_def driver_amount_def)
  qed
next
  show "serialize_value (PDecimal d) = JFloat (float_of_decimal d)"
    by simp
next
  show "balance (credit account a)
      = dec_add (if dec_truthy (balance account) then balance account else Decimal 0 0) a"
    by (simp add: credit_def)
next
  show "dec_val (balance (credit account a)) = dec_val (balance account) + dec_val a"
    by (rule dec_val_credit)
next
  from release_escrow_InrD [OF ok]
  show "list_all2 (\<lambda>u u'. u' = u \<or> numeric_12_2 (balance u')) (users s) (users s')"
  proof (elim disjE exE conjE)
    assume "s' = s"
    then show ?thesis by (simp add: list_all2_same)
  next
    fix deal escrow payer
    assume "settle loop now request deal escrow payer s = (Inr resp, s', tasks)"
    then show ?thesis by (rule settle_written_balances)
  qed
qed

theorem money_representation_witness:
  "fst (release_escrow demo_checkpw True demo_now keyless_request seed_db)
     = Inr (projr (fst (release_escrow demo_checkpw True demo_now keyless_request seed_db)))
   \<and> map amount (escrow_transactions
         (fst (snd (release_escrow demo_checkpw True demo_now keyless_request seed_db))))
     = [Decimal 438000 2]
   \<and> r_amount (projr (fst (release_escrow demo_checkpw True demo_now keyless_request seed_db)))
     = float_of_decimal (Decimal 438000 2)
   \<and> bc_amount (producer_credit
         (projr (fst (release_escrow demo_checkpw True demo_now keyless_request seed_db))))
     = float_of_decimal (dec_mul (Decimal 438000 2) PRODUCER_SHARE)
   \<and> bc_amount (driver_credit
         (projr (fst (release_escrow demo_checkpw True demo_now keyless_request seed_db))))
     = float_of_decimal (dec_mul (Decimal 438000 2) DRIVER_SHARE)
   \<and> map balance
       (users (fst (snd (release_escrow demo_checkpw True demo_now keyless_request seed_db))))
     = [Decimal 394200 2, Decimal 0 2, Decimal 43800 2]
   \<and> list_all2 (\<lambda>u u'. u' = u \<or> numeric_12_2 (balance u')) (users seed_db)
       (users (fst (snd (release_escrow demo_checkpw True demo_now keyless_request seed_db))))"
proof -
  obtain resp s' tasks where
    e: "release_escrow demo_checkpw True demo_now keyless_request seed_db = (Inr resp, s', tasks)"
    using seed_release_succeeds by blast
  have a: "map amount (escrow_transactions
         (fst (snd (release_escrow demo_checkpw True demo_now keyless_request seed_db))))
     = [Decimal 438000 2]"
    by (simp add: seed_defs router_defs)
  have u: "map balance
       (users (fst (snd (release_escrow demo_checkpw True demo_now keyless_request seed_db))))
     = [Decimal 394200 2, Decimal 0 2, Decimal 43800 2]"
    unfolding seed_release_users by (simp add: seed_defs)
  from a e have "set (escrow_transactions s') \<noteq> {}
      \<and> (\<forall>x \<in> set (escrow_transactions s'). amount x = Decimal 438000 2)"
    by (cases "escrow_transactions s'") auto
  with money_representation [OF e, THEN conjunct1]
  have f: "r_amount resp = float_of_decimal (Decimal 438000 2)
      \<and> bc_amount (producer_credit resp)
          = float_of_decimal (dec_mul (Decimal 438000 2) PRODUCER_SHARE)
      \<and> bc_amount (driver_credit resp)
          = float_of_decimal (dec_mul (Decimal 438000 2) DRIVER_SHARE)"
    by auto
  have l: "list_all2 (\<lambda>u u'. u' = u \<or> numeric_12_2 (balance u')) (users seed_db) (users s')"
    using money_representation [OF e, where d = "Decimal 1 2" and account = seed_producer
        and a = "Decimal 0 2"]
    by (elim conjE)
  have r: "fst (release_escrow demo_checkpw True demo_now keyless_request seed_db) = Inr resp"
    and s': "fst (snd (release_escrow demo_checkpw True demo_now keyless_request seed_db)) = s'"
    using e by simp_all
  show ?thesis
    unfolding r s' using a [unfolded s'] u [unfolded s'] f l by simp
qed

lemmas float_defs = float_of_decimal_def float_of_ratio_def scaled_def round_half_even_def
  bit_length.simps

text \<open>
  The claim as stated has no binary floating point in the response or the audit
  serialization. The audit serialization of the amount 0.01 is the double
  \<open>5764607523034235 / 2 ^ 59\<close>, which is not 0.01, and the response of the seeded
  release carries its three amounts as doubles.
\<close>

theorem float_serialization_counterexample:
  "serialize_value (PDecimal (Decimal 1 2)) = JFloat (Float64 5764607523034235 (- 59))
   \<and> float_val (Float64 5764607523034235 (- 59)) \<noteq> dec_val (Decimal 1 2)
   \<and> r_amount (projr (fst (release_escrow demo_checkpw True demo_now keyless_request seed_db)))
     = Float64 4815860929658880 (- 40)
   \<and> bc_amount (producer_credit
         (projr (fst (release_escrow demo_checkpw True demo_now keyless_request seed_db))))
     = Float64 8668549673385984 (- 41)
   \<and> bc_amount (driver_credit
         (projr (fst (release_escrow demo_checkpw True demo_now keyless_request seed_db))))
     = Float64 7705377487454208 (- 44)"
  by (simp add: seed_defs router_defs float_defs float_val_def dec_val_def)

end
